theory Spec2Isabelle
  imports Main
begin

section \<open>Strings of the plugin\<close>

text \<open>
  The plugin is \<^verbatim>\<open>src/plugin.ts\<close>: class \<^verbatim>\<open>InsertTimestamp\<close> with the methods
  \<^verbatim>\<open>onKeyDown\<close>, \<^verbatim>\<open>getFormattedTimestamp\<close> and \<^verbatim>\<open>copyPasteText\<close>.
  A JavaScript string is modelled as a \<^typ>\<open>string\<close>; the five characters the escaping
  code names are written by their ASCII codes.
\<close>

abbreviation backtick :: char where "backtick \<equiv> CHR 0x60"
abbreviation dollar :: char where "dollar \<equiv> CHR 0x24"
abbreviation dquote :: char where "dquote \<equiv> CHR 0x22"
abbreviation squote :: char where "squote \<equiv> CHR 0x27"
abbreviation backslash :: char where "backslash \<equiv> CHR 0x5C"
abbreviation newline :: char where "newline \<equiv> CHR 0x0A"

text \<open>
  \<^verbatim>\<open>s.replace(/c/g, r)\<close> for a pattern that matches the single character \<open>c\<close>: every
  occurrence of \<open>c\<close> in \<open>s\<close>, from left to right, becomes \<open>r\<close>. None of the replacement
  strings of the plugin holds a \<^verbatim>\<open>$\<close> pattern of \<^verbatim>\<open>String.prototype.replace\<close>
  (the only dollar sign is the last character of its replacement), so each is taken literally.
\<close>

primrec replaceAll :: "char \<Rightarrow> string \<Rightarrow> string \<Rightarrow> string" where
  "replaceAll c r [] = []"
| "replaceAll c r (x # xs) = (if x = c then r @ replaceAll c r xs else x # replaceAll c r xs)"

text \<open>
  \<^verbatim>\<open>copyPasteText\<close>, Windows branch (lines 131-136): the chain of five replacements, in
  the order of the source.
\<close>

definition escapedText :: "string \<Rightarrow> string" where
  "escapedText text =
     replaceAll backslash [backslash, backslash]
       (replaceAll squote [squote, squote]
         (replaceAll dquote [backtick, dquote]
           (replaceAll dollar [backtick, dollar]
             (replaceAll backtick [backtick, backtick] text))))"

text \<open>The command of the Windows branch (line 142), split where the text is interpolated.\<close>

definition windowsPrefix :: string where
  "windowsPrefix = ''powershell -command '' @ [dquote] @ ''Set-Clipboard -Value '' @ [squote]"

definition windowsSuffix :: string where
  "windowsSuffix =
     [squote] @ ''; Add-Type -AssemblyName System.Windows.Forms; '' @
     ''[System.Windows.Forms.SendKeys]::SendWait('' @ [squote] @ ''^v'' @ [squote] @ '')'' @ [dquote]"

definition windowsCommand :: "string \<Rightarrow> string" where
  "windowsCommand text = windowsPrefix @ escapedText text @ windowsSuffix"

text \<open>
  macOS and Linux branches (lines 158 and 171): \<^verbatim>\<open>text.replace(/"/g, '\\"')\<close>, each double
  quote becomes a backslash and a double quote.
\<close>

definition escapeDoubleQuotes :: "string \<Rightarrow> string" where
  "escapeDoubleQuotes text = replaceAll dquote [backslash, dquote] text"

definition echoPrefix :: string where
  "echoPrefix = ''echo -n '' @ [dquote]"

definition pbcopyCommand :: "string \<Rightarrow> string" where
  "pbcopyCommand text = echoPrefix @ escapeDoubleQuotes text @ [dquote] @ '' | pbcopy''"

definition osascriptCommand :: string where
  "osascriptCommand =
     ''osascript -e '' @ [squote] @ ''tell application '' @ [dquote] @ ''System Events'' @ [dquote] @
     '' to keystroke '' @ [dquote] @ ''v'' @ [dquote] @ '' using command down'' @ [squote]"

definition xclipCommand :: "string \<Rightarrow> string" where
  "xclipCommand text = echoPrefix @ escapeDoubleQuotes text @ [dquote] @ '' | xclip -selection clipboard''"

definition xdotoolCommand :: string where
  "xdotoolCommand = ''xdotool key ctrl+v''"

section \<open>The shells that read the commands\<close>

text \<open>
  The claims about escaping speak of what PowerShell and a POSIX shell make of the generated
  command. Neither shell is code of the plugin; their quoting rules are modelled here from
  the languages' references, as readers of the text that follows an opening quote.

  PowerShell, single-quoted (verbatim) string: every character stands for itself; two
  consecutive single quotes stand for one; a single quote that is not doubled closes the
  literal. The reader returns the value and the rest of the script, or \<open>None\<close> when the
  literal is never closed.
\<close>

fun psSingleQuoted :: "string \<Rightarrow> (string \<times> string) option" where
  "psSingleQuoted [] = None"
| "psSingleQuoted (c # cs) =
     (if c = squote then
        (case cs of
           [] \<Rightarrow> Some ([], [])
         | d # ds \<Rightarrow>
             if d = squote then map_option (\<lambda>(v, r). (squote # v, r)) (psSingleQuoted ds)
             else Some ([], cs))
      else map_option (\<lambda>(v, r). (c # v, r)) (psSingleQuoted cs))"

text \<open>
  The value PowerShell gives to \<^verbatim>\<open>Set-Clipboard -Value\<close> in a command of the Windows
  branch: the command must start as the source writes it, up to the opening single quote.
\<close>

definition setClipboardValue :: "string \<Rightarrow> (string \<times> string) option" where
  "setClipboardValue cmd =
     (if take (length windowsPrefix) cmd = windowsPrefix
      then psSingleQuoted (drop (length windowsPrefix) cmd) else None)"

text \<open>
  POSIX shell, double quotes (Shell Command Language, 2.2.3): a double quote closes the
  word; a dollar sign or a backquote starts an expansion, whose value is not a function of
  the text; a backslash escapes a following dollar sign, backquote, double quote or
  backslash, removes a following newline, and stands for itself before any other character.
\<close>

datatype dq_parse = Closed string string | Unclosed | Expands

fun dq_cons :: "char \<Rightarrow> dq_parse \<Rightarrow> dq_parse" where
  "dq_cons c (Closed v r) = Closed (c # v) r"
| "dq_cons c Unclosed = Unclosed"
| "dq_cons c Expands = Expands"

fun posixDoubleQuoted :: "string \<Rightarrow> dq_parse" where
  "posixDoubleQuoted [] = Unclosed"
| "posixDoubleQuoted (c # cs) =
     (if c = dquote then Closed [] cs
      else if c = dollar \<or> c = backtick then Expands
      else if c = backslash then
        (case cs of
           [] \<Rightarrow> Unclosed
         | d # ds \<Rightarrow>
             if d = dollar \<or> d = backtick \<or> d = dquote \<or> d = backslash
             then dq_cons d (posixDoubleQuoted ds)
             else if d = newline then posixDoubleQuoted ds
             else dq_cons backslash (dq_cons d (posixDoubleQuoted ds)))
      else dq_cons c (posixDoubleQuoted cs))"

text \<open>
  The word a POSIX shell hands to \<^verbatim>\<open>echo -n\<close> in a command of the macOS or Linux
  branch, and the rest of the command line after the closing quote.
\<close>

definition echoArgument :: "string \<Rightarrow> dq_parse option" where
  "echoArgument cmd =
     (if take (length echoPrefix) cmd = echoPrefix
      then Some (posixDoubleQuoted (drop (length echoPrefix) cmd)) else None)"

section \<open>Numbers and padding\<close>

text \<open>
  \<^verbatim>\<open>String(n)\<close> and the interpolation \<^verbatim>\<open>${n}\<close> of an integral Number: its decimal
  digits, after a minus sign when it is negative.
\<close>

definition digitChar :: "nat \<Rightarrow> char" where
  "digitChar n = ''0123456789'' ! n"

fun digitsOf :: "nat \<Rightarrow> string" where
  "digitsOf n = (if n < 10 then [digitChar n] else digitsOf (n div 10) @ [digitChar (n mod 10)])"

declare digitsOf.simps [simp del]

definition numberToString :: "int \<Rightarrow> string" where
  "numberToString i = (if i < 0 then CHR ''-'' # digitsOf (nat (- i)) else digitsOf (nat i))"

text \<open>
  \<^verbatim>\<open>s.padStart(n, c)\<close> with a pad string of one character: \<open>s\<close> itself when it has
  \<open>n\<close> characters or more (the subtraction on \<^typ>\<open>nat\<close> stops at zero).
\<close>

definition padStart :: "nat \<Rightarrow> char \<Rightarrow> string \<Rightarrow> string" where
  "padStart n c s = replicate (n - length s) c @ s"

section \<open>The Date of the runtime\<close>

text \<open>
  \<^verbatim>\<open>new Date()\<close> holds a time value: the milliseconds since 1970-01-01T00:00:00Z. The
  methods the plugin calls on it are ECMAScript's, not the plugin's; they are modelled from
  ECMA-262, 21.4.1 (Day Number and Time within Day, Year Number, Month Number, Date
  Number, Hours, Minutes, Second, and Milliseconds), with the names of that section.
  The division and the modulo of \<^typ>\<open>int\<close> are the floor and the modulo of that section.
\<close>

definition msPerDay :: int where "msPerDay = 86400000"

definition Day :: "int \<Rightarrow> int" where
  "Day t = t div msPerDay"

definition DaysInYear :: "int \<Rightarrow> int" where
  "DaysInYear y =
     (if y mod 4 \<noteq> 0 then 365 else if y mod 100 \<noteq> 0 then 366
      else if y mod 400 \<noteq> 0 then 365 else 366)"

definition DayFromYear :: "int \<Rightarrow> int" where
  "DayFromYear y =
     365 * (y - 1970) + (y - 1969) div 4 - (y - 1901) div 100 + (y - 1601) div 400"

definition TimeFromYear :: "int \<Rightarrow> int" where
  "TimeFromYear y = msPerDay * DayFromYear y"

text \<open>
  ECMA-262 defines \<open>YearFromTime t\<close> as the largest \<open>y\<close> with \<open>TimeFromYear y \<le> t\<close>. The
  definition below computes it: the mean length of a year gives an estimate that is off by
  one at most, and the two comparisons correct it. Lemmas \<open>YearFromTime_lower\<close>,
  \<open>YearFromTime_upper\<close> and \<open>YearFromTime_largest\<close> prove that it is that year.
\<close>

definition YearFromTime :: "int \<Rightarrow> int" where
  "YearFromTime t =
     (let y = 1970 + (400 * Day t) div 146097
      in if DayFromYear (y + 1) \<le> Day t then y + 1
         else if Day t < DayFromYear y then y - 1 else y)"

definition DayWithinYear :: "int \<Rightarrow> int" where
  "DayWithinYear t = Day t - DayFromYear (YearFromTime t)"

definition InLeapYear :: "int \<Rightarrow> int" where
  "InLeapYear t = (if DaysInYear (YearFromTime t) = 366 then 1 else 0)"

definition MonthFromTime :: "int \<Rightarrow> int" where
  "MonthFromTime t =
     (let d = DayWithinYear t; l = InLeapYear t
      in if d < 31 then 0
         else if d < 59 + l then 1
         else if d < 90 + l then 2
         else if d < 120 + l then 3
         else if d < 151 + l then 4
         else if d < 181 + l then 5
         else if d < 212 + l then 6
         else if d < 243 + l then 7
         else if d < 273 + l then 8
         else if d < 304 + l then 9
         else if d < 334 + l then 10
         else 11)"

definition DateFromTime :: "int \<Rightarrow> int" where
  "DateFromTime t =
     (let d = DayWithinYear t; l = InLeapYear t; m = MonthFromTime t
      in if m = 0 then d + 1
         else if m = 1 then d - 30
         else if m = 2 then d - 58 - l
         else if m = 3 then d - 89 - l
         else if m = 4 then d - 119 - l
         else if m = 5 then d - 150 - l
         else if m = 6 then d - 180 - l
         else if m = 7 then d - 211 - l
         else if m = 8 then d - 242 - l
         else if m = 9 then d - 272 - l
         else if m = 10 then d - 303 - l
         else d - 333 - l)"

definition HourFromTime :: "int \<Rightarrow> int" where
  "HourFromTime t = (t div 3600000) mod 24"

definition MinFromTime :: "int \<Rightarrow> int" where
  "MinFromTime t = (t div 60000) mod 60"

definition SecFromTime :: "int \<Rightarrow> int" where
  "SecFromTime t = (t div 1000) mod 60"

definition msFromTime :: "int \<Rightarrow> int" where
  "msFromTime t = t mod 1000"

text \<open>
  \<^verbatim>\<open>toISOString\<close> (ECMA-262, 21.4.4.36 and the Date Time String Format, 21.4.1.32): the
  fields of the time value in UTC, as \<^verbatim>\<open>YYYY-MM-DDTHH:mm:ss.sssZ\<close>; a year outside 0 to
  9999 is written with a sign and six digits.
\<close>

definition isoYear :: "int \<Rightarrow> string" where
  "isoYear y =
     (if 0 \<le> y \<and> y \<le> 9999 then padStart 4 (CHR ''0'') (numberToString y)
      else (if y < 0 then ''-'' else ''+'') @ padStart 6 (CHR ''0'') (numberToString \<bar>y\<bar>))"

definition toISOString :: "int \<Rightarrow> string" where
  "toISOString t =
     isoYear (YearFromTime t) @ ''-'' @
     padStart 2 (CHR ''0'') (numberToString (MonthFromTime t + 1)) @ ''-'' @
     padStart 2 (CHR ''0'') (numberToString (DateFromTime t)) @ ''T'' @
     padStart 2 (CHR ''0'') (numberToString (HourFromTime t)) @ '':'' @
     padStart 2 (CHR ''0'') (numberToString (MinFromTime t)) @ '':'' @
     padStart 2 (CHR ''0'') (numberToString (SecFromTime t)) @ ''.'' @
     padStart 3 (CHR ''0'') (numberToString (msFromTime t)) @ ''Z''"

section \<open>The environment of a key press\<close>

text \<open>
  What the plugin reads from its surroundings during one key press, as inputs of the model:
  \<^item> \<open>platform\<close>: \<^verbatim>\<open>process.platform\<close>;
  \<^item> \<open>clock\<close>: the time value \<^verbatim>\<open>new Date()\<close> samples;
  \<^item> \<open>localTZA\<close>: the offset of local time, in milliseconds, at a UTC time value
    (ECMA-262: \<open>LocalTime t = t + LocalTZA t\<close>);
  \<^item> \<open>toLocaleDateString\<close>, \<open>toLocaleStringLong\<close>, \<open>toLocaleTimeString\<close>: the renderings
    of a time value by the runtime's locale data, which ECMAScript leaves to the
    implementation (\<open>toLocaleStringLong\<close> is \<^verbatim>\<open>toLocaleString('en-US', ...)\<close> with the
    options of lines 85-93);
  \<^item> \<open>exec\<close>: the operating system, as Node's \<^verbatim>\<open>child_process.exec\<close> shows it: given
    what was run before and a command line, \<open>None\<close> when the command exits with status 0
    and the error the promise is rejected with otherwise (a missing utility included);
  \<^item> \<open>showOk\<close>: the outcome of the host's \<^verbatim>\<open>ev.action.showOk()\<close>.
\<close>

datatype thrown = Error string

text \<open>\<^verbatim>\<open>${error}\<close>: \<^verbatim>\<open>Error.prototype.toString\<close>, the name alone when the message is empty.\<close>

fun errorToString :: "thrown \<Rightarrow> string" where
  "errorToString (Error msg) = (if msg = [] then ''Error'' else ''Error: '' @ msg)"

fun message :: "thrown \<Rightarrow> string" where
  "message (Error msg) = msg"

datatype exec_event = Issued string | Exited string | Failed string thrown

record env =
  platform :: string
  clock :: int
  localTZA :: "int \<Rightarrow> int"
  toLocaleDateString :: "int \<Rightarrow> string"
  toLocaleStringLong :: "int \<Rightarrow> string"
  toLocaleTimeString :: "int \<Rightarrow> string"
  exec :: "exec_event list \<Rightarrow> string \<Rightarrow> thrown option"
  showOk :: "thrown option"

definition LocalTime :: "env \<Rightarrow> int \<Rightarrow> int" where
  "LocalTime rt t = t + localTZA rt t"

definition getFullYear :: "env \<Rightarrow> int \<Rightarrow> int" where
  "getFullYear rt t = YearFromTime (LocalTime rt t)"

definition getMonth :: "env \<Rightarrow> int \<Rightarrow> int" where
  "getMonth rt t = MonthFromTime (LocalTime rt t)"

definition getDate :: "env \<Rightarrow> int \<Rightarrow> int" where
  "getDate rt t = DateFromTime (LocalTime rt t)"

definition getHours :: "env \<Rightarrow> int \<Rightarrow> int" where
  "getHours rt t = HourFromTime (LocalTime rt t)"

definition getMinutes :: "env \<Rightarrow> int \<Rightarrow> int" where
  "getMinutes rt t = MinFromTime (LocalTime rt t)"

definition getSeconds :: "env \<Rightarrow> int \<Rightarrow> int" where
  "getSeconds rt t = SecFromTime (LocalTime rt t)"

section \<open>getFormattedTimestamp\<close>

text \<open>
  Lines 77-117. The \<^verbatim>\<open>switch\<close> compares the selector with each label in turn; no branch
  throws, so the function returns a string for every selector.
\<close>

definition getFormattedTimestamp :: "env \<Rightarrow> string \<Rightarrow> string" where
  "getFormattedTimestamp rt format =
     (let now = clock rt in
      if format = ''short'' then toLocaleDateString rt now
      else if format = ''long'' then toLocaleStringLong rt now
      else if format = ''time'' then toLocaleTimeString rt now
      else if format = ''iso'' then toISOString now
      else if format = ''custom'' then
        (let year = getFullYear rt now;
             month = padStart 2 (CHR ''0'') (numberToString (getMonth rt now + 1));
             day = padStart 2 (CHR ''0'') (numberToString (getDate rt now));
             hours = padStart 2 (CHR ''0'') (numberToString (getHours rt now));
             minutes = padStart 2 (CHR ''0'') (numberToString (getMinutes rt now));
             seconds = padStart 2 (CHR ''0'') (numberToString (getSeconds rt now))
         in numberToString year @ ''-'' @ month @ ''-'' @ day @ '' '' @
            hours @ ''-'' @ minutes @ ''-'' @ seconds)
      else toLocaleDateString rt now)"

section \<open>copyPasteText and onKeyDown\<close>

text \<open>
  The effects of a key press are kept in a record that each step returns updated: the lines
  written to \<^verbatim>\<open>streamdeck.logger\<close>, the commands handed to \<^verbatim>\<open>execAsync\<close> with their
  outcomes, in order, and the number of calls of \<^verbatim>\<open>showOk\<close>. A call that can throw returns
  \<open>Inl\<close> of the thrown value or \<open>Inr\<close> of its result.
\<close>

datatype LogLevel = INFO | WARN | ERROR

record host =
  logger :: "(LogLevel \<times> string) list"
  execs :: "exec_event list"
  showOkCalls :: nat

definition logLine :: "LogLevel \<Rightarrow> string \<Rightarrow> host \<Rightarrow> host" where
  "logLine l s h = h\<lparr>logger := logger h @ [(l, s)]\<rparr>"

text \<open>
  \<^verbatim>\<open>await execAsync(command)\<close>: the command is issued, and the caller goes on only when it
  has exited (\<open>Exited\<close>) or the promise is rejected (\<open>Failed\<close>).
\<close>

definition execAsync :: "env \<Rightarrow> string \<Rightarrow> host \<Rightarrow> (thrown + unit) \<times> host" where
  "execAsync rt command h =
     (case exec rt (execs h) command of
        None \<Rightarrow> (Inr (), h\<lparr>execs := execs h @ [Issued command, Exited command]\<rparr>)
      | Some e \<Rightarrow> (Inl e, h\<lparr>execs := execs h @ [Issued command, Failed command e]\<rparr>))"

text \<open>Lines 122-179: one \<^verbatim>\<open>try\<close>/\<^verbatim>\<open>catch\<close> per platform branch.\<close>

definition copyPasteText :: "env \<Rightarrow> string \<Rightarrow> host \<Rightarrow> (thrown + unit) \<times> host" where
  "copyPasteText rt text h =
     (if platform rt = ''win32'' then
        (let h1 = logLine INFO ''Inserting timestamp on Windows'' h;
             h2 = logLine INFO (''Escaped text: '' @ escapedText text) h1;
             command = windowsCommand text;
             h3 = logLine INFO (''Running command: '' @ command) h2
         in case execAsync rt command h3 of
              (Inr u, h4) \<Rightarrow> (Inr (), h4)
            | (Inl e, h4) \<Rightarrow>
                (Inl (Error (''Error inserting timestamp on Windows: '' @ errorToString e)),
                 logLine ERROR (''Error inserting timestamp on Windows: '' @ errorToString e) h4))
      else if platform rt = ''darwin'' then
        (case execAsync rt (pbcopyCommand text) h of
           (Inr u, h1) \<Rightarrow>
             (case execAsync rt osascriptCommand h1 of
                (Inr v, h2) \<Rightarrow> (Inr (), h2)
              | (Inl e, h2) \<Rightarrow>
                  (Inl (Error (''Error inserting timestamp on macOS: '' @ errorToString e)),
                   logLine ERROR (''Error inserting timestamp on macOS: '' @ errorToString e) h2))
         | (Inl e, h1) \<Rightarrow>
             (Inl (Error (''Error inserting timestamp on macOS: '' @ errorToString e)),
              logLine ERROR (''Error inserting timestamp on macOS: '' @ errorToString e) h1))
      else
        (case execAsync rt (xclipCommand text) h of
           (Inr u, h1) \<Rightarrow>
             (case execAsync rt xdotoolCommand h1 of
                (Inr v, h2) \<Rightarrow> (Inr (), h2)
              | (Inl e, h2) \<Rightarrow>
                  (Inl (Error ''Linux support requires xclip/xdotool. Please install these utilities and try again.''),
                   logLine WARN ''Linux support requires xclip/xdotool'' h2))
         | (Inl e, h1) \<Rightarrow>
             (Inl (Error ''Linux support requires xclip/xdotool. Please install these utilities and try again.''),
              logLine WARN ''Linux support requires xclip/xdotool'' h1)))"

text \<open>
  The event of a key press: \<^verbatim>\<open>ev.payload.settings\<close> may be missing (the source reads it
  with \<^verbatim>\<open>?.\<close>), and so may its \<^verbatim>\<open>format\<close>. Line 59,
  \<^verbatim>\<open>ev.payload.settings?.format || "default"\<close>: a missing and an empty format are falsy.
\<close>

record TimestampSettings =
  format :: "string option"

record KeyDownEvent =
  settings :: "TimestampSettings option"

definition selectedFormat :: "KeyDownEvent \<Rightarrow> string" where
  "selectedFormat ev =
     (case settings ev of
        None \<Rightarrow> ''default''
      | Some s \<Rightarrow> (case format s of None \<Rightarrow> ''default'' | Some f \<Rightarrow> if f = [] then ''default'' else f))"

text \<open>Lines 56-75: the whole body is in one \<^verbatim>\<open>try\<close>, and the \<^verbatim>\<open>catch\<close> logs and returns.\<close>

definition onKeyDown :: "env \<Rightarrow> KeyDownEvent \<Rightarrow> host \<Rightarrow> (thrown + unit) \<times> host" where
  "onKeyDown rt ev h =
     (let format = selectedFormat ev;
          timestamp = getFormattedTimestamp rt format;
          h1 = logLine INFO (''Got timestamp: '' @ timestamp @ '' (format: '' @ format @ '')'') h
      in case copyPasteText rt timestamp h1 of
           (Inr u, h2) \<Rightarrow>
             (case showOk rt of
                None \<Rightarrow> (Inr (), h2\<lparr>showOkCalls := Suc (showOkCalls h2)\<rparr>)
              | Some e \<Rightarrow>
                  (Inr (), logLine ERROR (''Error getting timestamp: '' @ errorToString e)
                             (h2\<lparr>showOkCalls := Suc (showOkCalls h2)\<rparr>)))
         | (Inl e, h2) \<Rightarrow>
             (Inr (), logLine ERROR (''Error getting timestamp: '' @ errorToString e) h2))"

section \<open>Words of the claims\<close>

text \<open>
  \<^verbatim>\<open>s.startsWith(p)\<close> and \<^verbatim>\<open>s.includes(p)\<close>, to say that a message names a utility, a
  platform or an error text.
\<close>

fun startsWith :: "string \<Rightarrow> string \<Rightarrow> bool" where
  "startsWith s [] = True"
| "startsWith [] (p # ps) = False"
| "startsWith (c # cs) (p # ps) = (c = p \<and> startsWith cs ps)"

fun strIncludes :: "string \<Rightarrow> string \<Rightarrow> bool" where
  "strIncludes [] p = startsWith [] p"
| "strIncludes (c # cs) p = (startsWith (c # cs) p \<or> strIncludes cs p)"

text \<open>
  The script of a command of the Windows branch, as PowerShell reads it. The command line is
  \<^verbatim>\<open>powershell -command "..."\<close>, and the script is what stands between the double quotes
  (what \<^verbatim>\<open>cmd.exe\<close> makes of a double quote or a percent sign inside the text is not
  modelled). PowerShell separates the statements of a script at the semicolons that stand
  outside a single-quoted literal, and runs them in the order they are written; \<open>q\<close> tells
  whether the reader is inside a literal (a doubled single quote leaves and enters it
  again), \<open>cur\<close> is the statement read so far.
\<close>

definition powershellScript :: "string \<Rightarrow> string option" where
  "powershellScript cmd =
     (let p = ''powershell -command '' @ [dquote]
      in if take (length p) cmd = p \<and> length p < length cmd \<and> last cmd = dquote
         then Some (butlast (drop (length p) cmd)) else None)"

fun psStatements :: "bool \<Rightarrow> string \<Rightarrow> string \<Rightarrow> string list" where
  "psStatements q cur [] = [cur]"
| "psStatements q cur (c # cs) =
     (if c = squote then psStatements (\<not> q) (cur @ [c]) cs
      else if c = CHR '';'' \<and> \<not> q then cur # psStatements False [] cs
      else psStatements q (cur @ [c]) cs)"

text \<open>
  What a statement of such a script does, read from the command it starts with:
  \<^verbatim>\<open>Set-Clipboard\<close> writes the clipboard, \<^verbatim>\<open>[System.Windows.Forms.SendKeys]::SendWait\<close>
  sends keystrokes to the foreground window.
\<close>

datatype ps_effect = WritesClipboard | SendsKeystroke | OtherStatement

definition statementEffect :: "string \<Rightarrow> ps_effect" where
  "statementEffect s =
     (let w = dropWhile (\<lambda>c. c = CHR '' '') s
      in if startsWith w ''Set-Clipboard '' then WritesClipboard
         else if startsWith w ''[System.Windows.Forms.SendKeys]::SendWait('' then SendsKeystroke
         else OtherStatement)"

definition scriptEffects :: "string \<Rightarrow> ps_effect list option" where
  "scriptEffects cmd =
     map_option (\<lambda>s. map statementEffect (psStatements False [] s)) (powershellScript cmd)"

text \<open>The name each branch of \<^verbatim>\<open>copyPasteText\<close> gives its platform in its messages.\<close>

definition platformName :: "string \<Rightarrow> string" where
  "platformName p = (if p = ''win32'' then ''Windows'' else if p = ''darwin'' then ''macOS'' else ''Linux'')"

text \<open>The three lines the Windows branch logs before it runs its command (lines 130-144).\<close>

definition windowsLogged :: "string \<Rightarrow> (LogLevel \<times> string) list" where
  "windowsLogged t =
     [(INFO, ''Inserting timestamp on Windows''),
      (INFO, ''Escaped text: '' @ escapedText t),
      (INFO, ''Running command: '' @ windowsCommand t)]"

text \<open>
  A layout is a pattern in which \<^verbatim>\<open>#\<close> stands for one decimal digit and every other
  character for itself: \<^verbatim>\<open>####-##-## ##-##-##\<close> is the layout the spec writes
  \<^verbatim>\<open>YYYY-MM-DD HH-MM-SS\<close>.
\<close>

definition isDigit :: "char \<Rightarrow> bool" where
  "isDigit c = (c \<in> set ''0123456789'')"

fun matchesLayout :: "string \<Rightarrow> string \<Rightarrow> bool" where
  "matchesLayout [] [] = True"
| "matchesLayout (p # ps) (c # cs) = ((if p = CHR ''#'' then isDigit c else c = p) \<and> matchesLayout ps cs)"
| "matchesLayout [] (c # cs) = False"
| "matchesLayout (p # ps) [] = False"

text \<open>A number from 0 to 99 as two decimal digits, the first one 0 below ten.\<close>

definition twoDigits :: "int \<Rightarrow> string" where
  "twoDigits n = [digitChar (nat (n div 10)), digitChar (nat (n mod 10))]"

definition threeDigits :: "int \<Rightarrow> string" where
  "threeDigits n = [digitChar (nat (n div 100)), digitChar (nat (n div 10 mod 10)), digitChar (nat (n mod 10))]"

definition fourDigits :: "int \<Rightarrow> string" where
  "fourDigits n =
     [digitChar (nat (n div 1000)), digitChar (nat (n div 100 mod 10)),
      digitChar (nat (n div 10 mod 10)), digitChar (nat (n mod 10))]"

text \<open>
  The order of two commands in a list of events: the command \<open>k\<close> is never issued before
  the command \<open>c\<close> has exited (\<open>written\<close> tells whether it has, so far).
\<close>

fun keystrokeAfterClipboard :: "string \<Rightarrow> string \<Rightarrow> bool \<Rightarrow> exec_event list \<Rightarrow> bool" where
  "keystrokeAfterClipboard c k written [] = True"
| "keystrokeAfterClipboard c k written (ev # evs) =
     (if ev = Issued k then written \<and> keystrokeAfterClipboard c k written evs
      else if ev = Exited c then keystrokeAfterClipboard c k True evs
      else keystrokeAfterClipboard c k written evs)"

text \<open>The events a call adds to the host's list.\<close>

definition newExecs :: "host \<Rightarrow> host \<Rightarrow> exec_event list" where
  "newExecs h h' = drop (length (execs h)) (execs h')"

section \<open>Sample inputs\<close>

text \<open>
  A key press on Linux at 2024-04-05T18:30:00Z, five hours west of Greenwich, with the
  en-US renderings of that instant, where every command exits with status 0.
\<close>

definition sampleEnv :: env where
  "sampleEnv =
     \<lparr>platform = ''linux'', clock = 1712341800000, localTZA = (\<lambda>t. - 18000000),
      toLocaleDateString = (\<lambda>t. ''4/5/2024''),
      toLocaleStringLong = (\<lambda>t. ''Friday, April 5, 2024 at 1:30:00 PM''),
      toLocaleTimeString = (\<lambda>t. ''1:30:00 PM''),
      exec = (\<lambda>tr c. None), showOk = None\<rparr>"

definition emptyHost :: host where
  "emptyHost = \<lparr>logger = [], execs = [], showOkCalls = 0\<rparr>"

definition shortEvent :: KeyDownEvent where
  "shortEvent = \<lparr>settings = Some \<lparr>format = Some ''short''\<rparr>\<rparr>"

text \<open>
  A system without xclip: the shell reports the missing command, and Node rejects the
  promise with \<^verbatim>\<open>Command failed:\<close>, the command line and the shell's message.
\<close>

definition commandFailed :: "string \<Rightarrow> string \<Rightarrow> thrown" where
  "commandFailed c stderr = Error (''Command failed: '' @ c @ [newline] @ stderr @ [newline])"

definition xclipMissing :: "exec_event list \<Rightarrow> string \<Rightarrow> thrown option" where
  "xclipMissing tr c =
     (if strIncludes c ''xclip'' then Some (commandFailed c ''/bin/sh: 1: xclip: not found'') else None)"

text \<open>A system on which every command fails with the same message.\<close>

definition allFail :: "exec_event list \<Rightarrow> string \<Rightarrow> thrown option" where
  "allFail tr c = Some (commandFailed c ''Access is denied.'')"

definition noXclipEnv :: env where
  "noXclipEnv = sampleEnv\<lparr>exec := xclipMissing\<rparr>"

text \<open>The same key press on Windows and on macOS.\<close>

definition windowsEnv :: env where
  "windowsEnv = sampleEnv\<lparr>platform := ''win32''\<rparr>"

definition macEnv :: env where
  "macEnv = sampleEnv\<lparr>platform := ''darwin''\<rparr>"

text \<open>The last second of the year 999, in a zone that keeps UTC.\<close>

definition year999Env :: env where
  "year999Env = sampleEnv\<lparr>clock := - 30610224001000, localTZA := (\<lambda>t. 0)\<rparr>"

section \<open>Lemmas on strings and escaping\<close>

lemma replaceAll_absent: "c \<notin> set s \<Longrightarrow> replaceAll c r s = s"
  by (induction s) auto

lemma startsWith_append: "startsWith (p @ s) p"
  by (induction p) auto

lemma startsWith_strIncludes: "startsWith s p \<Longrightarrow> strIncludes s p"
  by (cases s) auto

lemma strIncludes_append: "strIncludes (a @ p @ b) p"
  by (induction a) (auto simp: startsWith_append startsWith_strIncludes)

lemma strIncludes_suffix: "strIncludes (a @ p) p"
  using strIncludes_append [of a p "[]"] by simp

text \<open>
  What PowerShell reads back from the Windows escaping: the doubled single quotes are the
  only replacement its single-quoted literal undoes.
\<close>

lemma psSingleQuoted_doubled:
  assumes "rest = [] \<or> hd rest \<noteq> squote"
  shows "psSingleQuoted
           (replaceAll backslash [backslash, backslash] (replaceAll squote [squote, squote] s)
              @ squote # rest)
         = Some (replaceAll backslash [backslash, backslash] s, rest)"
proof (induction s)
  case Nil
  from assms show ?case by (cases rest) auto
next
  case (Cons x xs)
  then show ?case by simp
qed

lemma setClipboardValue_windowsCommand:
  "setClipboardValue (windowsCommand t) =
     Some (replaceAll backslash [backslash, backslash]
             (replaceAll dquote [backtick, dquote]
               (replaceAll dollar [backtick, dollar]
                 (replaceAll backtick [backtick, backtick] t))),
           tl windowsSuffix)"
proof -
  have suffix: "windowsSuffix = squote # tl windowsSuffix" "hd (tl windowsSuffix) \<noteq> squote"
    by (simp_all add: windowsSuffix_def)
  have "setClipboardValue (windowsCommand t) = psSingleQuoted (escapedText t @ windowsSuffix)"
    by (simp add: setClipboardValue_def windowsCommand_def)
  also have "\<dots> = psSingleQuoted (escapedText t @ squote # tl windowsSuffix)"
    by (metis suffix(1))
  also have "\<dots> = Some (replaceAll backslash [backslash, backslash]
             (replaceAll dquote [backtick, dquote]
               (replaceAll dollar [backtick, dollar]
                 (replaceAll backtick [backtick, backtick] t))), tl windowsSuffix)"
    unfolding escapedText_def using suffix(2) by (intro psSingleQuoted_doubled) simp
  finally show ?thesis .
qed

text \<open>
  The Windows escaping does round-trip a text that holds none of the four characters it
  escapes with a backquote or a backslash (single quotes included).
\<close>

lemma windows_roundtrip_plain:
  assumes "backtick \<notin> set t" "dollar \<notin> set t" "dquote \<notin> set t" "backslash \<notin> set t"
  shows "setClipboardValue (windowsCommand t) = Some (t, tl windowsSuffix)"
  using assms by (simp add: setClipboardValue_windowsCommand replaceAll_absent)

lemma posixDoubleQuoted_escaped:
  assumes "backslash \<notin> set t" "dollar \<notin> set t" "backtick \<notin> set t"
  shows "posixDoubleQuoted (escapeDoubleQuotes t @ dquote # rest) = Closed t rest"
  using assms unfolding escapeDoubleQuotes_def by (induction t) auto

text \<open>
  The statements of the Windows script, for every text: the escaped text cannot close the
  literal it stands in, so the script always has the same three statements.
\<close>

lemma replaceAll_append: "replaceAll c r (a @ b) = replaceAll c r a @ replaceAll c r b"
  by (induction a) auto

lemma escapedText_append: "escapedText (a @ b) = escapedText a @ escapedText b"
  by (simp add: escapedText_def replaceAll_append)

lemma escapedText_Cons: "escapedText (x # xs) = escapedText [x] @ escapedText xs"
  using escapedText_append [of "[x]" xs] by simp

lemma psStatements_quoted_char:
  "psStatements True cur (escapedText [x] @ rest) = psStatements True (cur @ escapedText [x]) rest"
  by (simp add: escapedText_def)

lemma psStatements_quoted:
  "psStatements True cur (escapedText t @ rest) = psStatements True (cur @ escapedText t) rest"
proof (induction t arbitrary: cur)
  case Nil
  show ?case by (simp add: escapedText_def)
next
  case (Cons x xs)
  have "psStatements True cur (escapedText (x # xs) @ rest) =
        psStatements True cur (escapedText [x] @ (escapedText xs @ rest))"
    by (subst escapedText_Cons) simp
  also have "\<dots> = psStatements True (cur @ escapedText [x]) (escapedText xs @ rest)"
    by (rule psStatements_quoted_char)
  also have "\<dots> = psStatements True ((cur @ escapedText [x]) @ escapedText xs) rest"
    by (rule Cons.IH)
  also have "\<dots> = psStatements True (cur @ escapedText (x # xs)) rest"
    by (subst (2) escapedText_Cons) simp
  finally show ?case .
qed

lemma windows_script:
  "powershellScript (windowsCommand t) =
     Some (''Set-Clipboard -Value '' @ [squote] @ escapedText t @ [squote] @
           ''; Add-Type -AssemblyName System.Windows.Forms; [System.Windows.Forms.SendKeys]::SendWait('' @
           [squote] @ ''^v'' @ [squote] @ '')'')"
  by (simp add: powershellScript_def windowsCommand_def windowsPrefix_def windowsSuffix_def Let_def
      butlast_append)

lemma windows_statements:
  "map_option (psStatements False []) (powershellScript (windowsCommand t)) =
     Some [''Set-Clipboard -Value '' @ [squote] @ escapedText t @ [squote],
           '' Add-Type -AssemblyName System.Windows.Forms'',
           '' [System.Windows.Forms.SendKeys]::SendWait('' @ [squote] @ ''^v'' @ [squote] @ '')'']"
  unfolding windows_script by (simp add: psStatements_quoted)

lemma windows_effects:
  "scriptEffects (windowsCommand t) = Some [WritesClipboard, OtherStatement, SendsKeystroke]"
proof -
  have "scriptEffects (windowsCommand t) =
          map_option (map statementEffect) (map_option (psStatements False []) (powershellScript (windowsCommand t)))"
    by (simp add: scriptEffects_def option.map_comp comp_def)
  then show ?thesis
    unfolding windows_statements by (simp add: statementEffect_def)
qed

text \<open>
  The macOS and Linux escaping does round-trip a text that holds no backslash, no dollar
  sign and no backquote.
\<close>

lemma posix_roundtrip_plain:
  assumes "backslash \<notin> set t" "dollar \<notin> set t" "backtick \<notin> set t"
  shows "echoArgument (pbcopyCommand t) = Some (Closed t '' | pbcopy'') \<and>
         echoArgument (xclipCommand t) = Some (Closed t '' | xclip -selection clipboard'')"
  using posixDoubleQuoted_escaped [OF assms]
  by (simp add: echoArgument_def pbcopyCommand_def xclipCommand_def)

section \<open>Lemmas on copyPasteText: one per path through a branch\<close>

lemma logLine_fields [simp]:
  "logger (logLine l s h) = logger h @ [(l, s)]"
  "execs (logLine l s h) = execs h"
  "showOkCalls (logLine l s h) = showOkCalls h"
  by (simp_all add: logLine_def)

lemma copyPasteText_win32_exits:
  assumes "platform rt = ''win32''" "exec rt (execs h) (windowsCommand t) = None"
  shows "copyPasteText rt t h =
           (Inr (), h\<lparr>logger := logger h @ windowsLogged t,
                       execs := execs h @ [Issued (windowsCommand t), Exited (windowsCommand t)]\<rparr>)"
  using assms by (simp add: copyPasteText_def Let_def execAsync_def logLine_def windowsLogged_def)

lemma copyPasteText_win32_fails:
  assumes "platform rt = ''win32''" "exec rt (execs h) (windowsCommand t) = Some e"
  shows "copyPasteText rt t h =
           (Inl (Error (''Error inserting timestamp on Windows: '' @ errorToString e)),
            h\<lparr>logger := logger h @ windowsLogged t @
                    [(ERROR, ''Error inserting timestamp on Windows: '' @ errorToString e)],
              execs := execs h @ [Issued (windowsCommand t), Failed (windowsCommand t) e]\<rparr>)"
  using assms by (simp add: copyPasteText_def Let_def execAsync_def logLine_def windowsLogged_def)

lemma copyPasteText_darwin_clipboard_fails:
  assumes "platform rt = ''darwin''" "exec rt (execs h) (pbcopyCommand t) = Some e"
  shows "copyPasteText rt t h =
           (Inl (Error (''Error inserting timestamp on macOS: '' @ errorToString e)),
            h\<lparr>logger := logger h @ [(ERROR, ''Error inserting timestamp on macOS: '' @ errorToString e)],
              execs := execs h @ [Issued (pbcopyCommand t), Failed (pbcopyCommand t) e]\<rparr>)"
  using assms by (simp add: copyPasteText_def execAsync_def logLine_def)

lemma copyPasteText_darwin_keystroke_fails:
  assumes "platform rt = ''darwin''" "exec rt (execs h) (pbcopyCommand t) = None"
    "exec rt (execs h @ [Issued (pbcopyCommand t), Exited (pbcopyCommand t)]) osascriptCommand = Some e"
  shows "copyPasteText rt t h =
           (Inl (Error (''Error inserting timestamp on macOS: '' @ errorToString e)),
            h\<lparr>logger := logger h @ [(ERROR, ''Error inserting timestamp on macOS: '' @ errorToString e)],
              execs := execs h @ [Issued (pbcopyCommand t), Exited (pbcopyCommand t),
                                  Issued osascriptCommand, Failed osascriptCommand e]\<rparr>)"
  using assms by (simp add: copyPasteText_def execAsync_def logLine_def)

lemma copyPasteText_darwin_exits:
  assumes "platform rt = ''darwin''" "exec rt (execs h) (pbcopyCommand t) = None"
    "exec rt (execs h @ [Issued (pbcopyCommand t), Exited (pbcopyCommand t)]) osascriptCommand = None"
  shows "copyPasteText rt t h =
           (Inr (), h\<lparr>execs := execs h @ [Issued (pbcopyCommand t), Exited (pbcopyCommand t),
                                  Issued osascriptCommand, Exited osascriptCommand]\<rparr>)"
  using assms by (simp add: copyPasteText_def execAsync_def logLine_def)

lemma copyPasteText_linux_clipboard_fails:
  assumes "platform rt \<noteq> ''win32''" "platform rt \<noteq> ''darwin''"
    "exec rt (execs h) (xclipCommand t) = Some e"
  shows "copyPasteText rt t h =
           (Inl (Error ''Linux support requires xclip/xdotool. Please install these utilities and try again.''),
            h\<lparr>logger := logger h @ [(WARN, ''Linux support requires xclip/xdotool'')],
              execs := execs h @ [Issued (xclipCommand t), Failed (xclipCommand t) e]\<rparr>)"
  using assms by (simp add: copyPasteText_def execAsync_def logLine_def)

lemma copyPasteText_linux_keystroke_fails:
  assumes "platform rt \<noteq> ''win32''" "platform rt \<noteq> ''darwin''"
    "exec rt (execs h) (xclipCommand t) = None"
    "exec rt (execs h @ [Issued (xclipCommand t), Exited (xclipCommand t)]) xdotoolCommand = Some e"
  shows "copyPasteText rt t h =
           (Inl (Error ''Linux support requires xclip/xdotool. Please install these utilities and try again.''),
            h\<lparr>logger := logger h @ [(WARN, ''Linux support requires xclip/xdotool'')],
              execs := execs h @ [Issued (xclipCommand t), Exited (xclipCommand t),
                                  Issued xdotoolCommand, Failed xdotoolCommand e]\<rparr>)"
  using assms by (simp add: copyPasteText_def execAsync_def logLine_def)

lemma copyPasteText_linux_exits:
  assumes "platform rt \<noteq> ''win32''" "platform rt \<noteq> ''darwin''"
    "exec rt (execs h) (xclipCommand t) = None"
    "exec rt (execs h @ [Issued (xclipCommand t), Exited (xclipCommand t)]) xdotoolCommand = None"
  shows "copyPasteText rt t h =
           (Inr (), h\<lparr>execs := execs h @ [Issued (xclipCommand t), Exited (xclipCommand t),
                                  Issued xdotoolCommand, Exited xdotoolCommand]\<rparr>)"
  using assms by (simp add: copyPasteText_def execAsync_def logLine_def)

lemma xclip_not_xdotool: "xclipCommand t \<noteq> xdotoolCommand"
  by (simp add: xclipCommand_def xdotoolCommand_def echoPrefix_def)

lemma pbcopy_not_osascript: "pbcopyCommand t \<noteq> osascriptCommand"
  by (simp add: pbcopyCommand_def osascriptCommand_def echoPrefix_def)

lemma copyPasteText_execs_grow:
  "take (length (execs h)) (execs (snd (copyPasteText rt t h))) = execs h"
  by (simp add: copyPasteText_def execAsync_def Let_def split: option.splits)

lemma message_eq: "message w = m \<longleftrightarrow> w = Error m"
  by (cases w) auto

lemma copyPasteText_showOkCalls: "showOkCalls (snd (copyPasteText rt t h)) = showOkCalls h"
  by (simp add: copyPasteText_def execAsync_def Let_def split: option.splits)

lemma copyPasteText_keeps_showOkCalls:
  "copyPasteText rt t h = (r, h2) \<Longrightarrow> showOkCalls h2 = showOkCalls (h :: host)"
  using copyPasteText_showOkCalls [of rt t h] by simp

lemma onKeyDown_never_throws: "fst (onKeyDown rt ev h) = Inr ()"
  by (simp add: onKeyDown_def Let_def split: prod.splits sum.splits option.splits)

section \<open>Lemmas on the Date\<close>

text \<open>Division by a positive number, as bounds that linear arithmetic can use.\<close>

lemma div_bounds:
  fixes x k :: int
  assumes "0 < k"
  shows "k * (x div k) \<le> x" "x < k * (x div k) + k"
proof -
  have "k * (x div k) + x mod k = x" by simp
  moreover have "0 \<le> x mod k" "x mod k < k" using assms by simp_all
  ultimately show "k * (x div k) \<le> x" "x < k * (x div k) + k" by linarith+
qed

lemma div_step:
  fixes a k :: int
  assumes "0 < k"
  shows "(a + 1) div k = (if (a + 1) mod k = 0 then a div k + 1 else a div k)"
proof (cases "a mod k + 1 = k")
  case True
  have dm: "k * (a div k) + a mod k = a" by simp
  have "k * (a div k + 1) + 0 = k * (a div k) + k" by (simp add: distrib_left)
  also have "\<dots> = k * (a div k) + (a mod k + 1)" using True by simp
  also have "\<dots> = a + 1" using dm by linarith
  finally have e: "a + 1 = k * (a div k + 1) + 0" by simp
  have z: "(0::int) \<le> 0" "0 < k" using assms by simp_all
  have "(a + 1) div k = a div k + 1" using int_div_pos_eq [OF e z] .
  moreover have "(a + 1) mod k = 0" using int_mod_pos_eq [OF e z] .
  ultimately show ?thesis by simp
next
  case False
  have r: "0 \<le> a mod k + 1" "a mod k + 1 < k"
    using assms False pos_mod_bound [of k a] pos_mod_sign [of k a] by linarith+
  have e: "a + 1 = k * (a div k) + (a mod k + 1)" by simp
  have "(a + 1) div k = a div k" using int_div_pos_eq [OF e r] .
  moreover have "(a + 1) mod k = a mod k + 1" using int_mod_pos_eq [OF e r] .
  moreover have "a mod k + 1 \<noteq> 0"
    using pos_mod_sign [OF assms, of a] by linarith
  ultimately show ?thesis by simp
qed

lemma multiple_of_multiple:
  fixes y :: int
  assumes "y mod (k * m) = 0"
  shows "y mod k = 0"
proof -
  from assms have "k * m dvd y" by (simp add: mod_eq_0_iff_dvd)
  then have "k dvd y" by (rule dvd_mult_left)
  then show ?thesis by (simp add: mod_eq_0_iff_dvd)
qed

lemma DayFromYear_step: "DayFromYear (y + 1) = DayFromYear y + DaysInYear y"
proof -
  have a: "y + 1 - 1969 = y - 1969 + 1" "y + 1 - 1901 = y - 1901 + 1" "y + 1 - 1601 = y - 1601 + 1"
    by simp_all
  have m: "(y - 1968) mod 4 = y mod 4" "(y - 1900) mod 100 = y mod 100"
          "(y - 1600) mod 400 = y mod 400"
    using mod_mult_self1 [of y "-492" 4] mod_mult_self1 [of y "-19" 100] mod_mult_self1 [of y "-4" 400]
    by simp_all
  have d4: "(y - 1969 + 1) div 4 = (if y mod 4 = 0 then (y - 1969) div 4 + 1 else (y - 1969) div 4)"
    using div_step [of 4 "y - 1969"] by (simp add: m)
  have d100: "(y - 1901 + 1) div 100 = (if y mod 100 = 0 then (y - 1901) div 100 + 1 else (y - 1901) div 100)"
    using div_step [of 100 "y - 1901"] by (simp add: m)
  have d400: "(y - 1601 + 1) div 400 = (if y mod 400 = 0 then (y - 1601) div 400 + 1 else (y - 1601) div 400)"
    using div_step [of 400 "y - 1601"] by (simp add: m)
  have imp: "y mod 400 = 0 \<Longrightarrow> y mod 100 = 0" "y mod 100 = 0 \<Longrightarrow> y mod 4 = 0"
    using multiple_of_multiple [of y 100 4] multiple_of_multiple [of y 4 25] by simp_all
  show ?thesis
    unfolding DayFromYear_def DaysInYear_def a d4 d100 d400 using imp by auto
qed

lemma DaysInYear_range: "365 \<le> DaysInYear y" "DaysInYear y \<le> 366"
  by (simp_all add: DaysInYear_def)

text \<open>
  \<open>YearFromTime\<close> is the year of ECMA-262: the largest \<open>y\<close> with \<open>TimeFromYear y \<le> t\<close>.
\<close>

lemma YearFromTime_bounds:
  "DayFromYear (YearFromTime t) \<le> Day t \<and> Day t < DayFromYear (YearFromTime t + 1)"
proof -
  define d where "d = Day t"
  define Y where "Y = (400 * d) div 146097"
  define a1 where "a1 = (Y + 3) div 4"
  define b1 where "b1 = (Y + 71) div 100"
  define c1 where "c1 = (Y + 371) div 400"
  define a0 where "a0 = Y div 4"
  define b0 where "b0 = (Y + 68) div 100"
  define c0 where "c0 = (Y + 368) div 400"
  have Y: "146097 * Y \<le> 400 * d" "400 * d < 146097 * Y + 146097"
    unfolding Y_def using div_bounds [of 146097 "400 * d"] by simp_all
  have up: "DayFromYear (1970 + Y + 2) = 365 * (Y + 2) + a1 - b1 + c1"
    unfolding DayFromYear_def a1_def b1_def c1_def by (simp add: algebra_simps)
  have lo: "DayFromYear (1970 + Y - 1) = 365 * (Y - 1) + a0 - b0 + c0"
    unfolding DayFromYear_def a0_def b0_def c0_def by (simp add: algebra_simps)
  have a1: "100 * Y \<le> 400 * a1" unfolding a1_def using div_bounds(2) [of 4 "Y + 3"] by simp
  have b1: "400 * b1 \<le> 4 * Y + 284" unfolding b1_def using div_bounds(1) [of 100 "Y + 71"] by simp
  have c1: "Y - 28 \<le> 400 * c1" unfolding c1_def using div_bounds(2) [of 400 "Y + 371"] by simp
  have a0: "400 * a0 \<le> 100 * Y" unfolding a0_def using div_bounds(1) [of 4 Y] by simp
  have b0: "4 * Y - 124 \<le> 400 * b0" unfolding b0_def using div_bounds(2) [of 100 "Y + 68"] by simp
  have c0: "400 * c0 \<le> Y + 368" unfolding c0_def using div_bounds(1) [of 400 "Y + 368"] by simp
  have "400 * d < 146000 * Y + 292000 + 400 * a1 - 400 * b1 + 400 * c1"
    using Y a1 b1 c1 by linarith
  also have "\<dots> = 400 * (365 * (Y + 2) + a1 - b1 + c1)" by simp
  finally have upper: "d < DayFromYear (1970 + Y + 2)"
    unfolding up by simp
  have "400 * (365 * (Y - 1) + a0 - b0 + c0) = 146000 * Y - 146000 + 400 * a0 - 400 * b0 + 400 * c0"
    by simp
  also have "\<dots> \<le> 400 * d"
    using Y a0 b0 c0 by linarith
  finally have lower: "DayFromYear (1970 + Y - 1) \<le> d"
    unfolding lo by simp
  have s: "1970 + Y + 2 = (1970 + Y + 1) + 1" "1970 + Y - 1 + 1 = 1970 + Y" by simp_all
  show ?thesis
    unfolding YearFromTime_def Let_def d_def [symmetric] Y_def [symmetric]
    using upper lower by (auto simp: s algebra_simps)
qed

lemma DayFromYear_mono: "y \<le> y' \<Longrightarrow> DayFromYear y \<le> DayFromYear y'"
proof (induction y' rule: int_ge_induct)
  case base
  show ?case by simp
next
  case (step i)
  then show ?case using DayFromYear_step [of i] DaysInYear_range(1) [of i] by linarith
qed

lemma Day_le_iff: "TimeFromYear y \<le> t \<longleftrightarrow> DayFromYear y \<le> Day t"
proof
  assume "TimeFromYear y \<le> t"
  then have "86400000 * DayFromYear y < 86400000 * (t div 86400000) + 86400000"
    unfolding TimeFromYear_def msPerDay_def using div_bounds(2) [of 86400000 t] by linarith
  then show "DayFromYear y \<le> Day t"
    unfolding Day_def msPerDay_def by linarith
next
  assume "DayFromYear y \<le> Day t"
  then have "86400000 * DayFromYear y \<le> 86400000 * (t div 86400000)"
    unfolding Day_def msPerDay_def by simp
  then show "TimeFromYear y \<le> t"
    unfolding TimeFromYear_def msPerDay_def using div_bounds(1) [of 86400000 t] by linarith
qed

lemma YearFromTime_lower: "TimeFromYear (YearFromTime t) \<le> t"
  using YearFromTime_bounds [of t] by (simp add: Day_le_iff)

lemma YearFromTime_upper: "t < TimeFromYear (YearFromTime t + 1)"
  using YearFromTime_bounds [of t] Day_le_iff [of "YearFromTime t + 1" t] by linarith

lemma YearFromTime_largest:
  assumes "TimeFromYear y \<le> t"
  shows "y \<le> YearFromTime t"
proof (rule ccontr)
  assume "\<not> y \<le> YearFromTime t"
  then have "YearFromTime t + 1 \<le> y" by simp
  then have "DayFromYear (YearFromTime t + 1) \<le> DayFromYear y" by (rule DayFromYear_mono)
  with YearFromTime_bounds [of t] assms show False by (simp add: Day_le_iff)
qed

lemma DayWithinYear_range:
  "0 \<le> DayWithinYear t" "DayWithinYear t < DaysInYear (YearFromTime t)"
  using YearFromTime_bounds [of t] DayFromYear_step [of "YearFromTime t"]
  by (simp_all add: DayWithinYear_def)

lemma DayWithinYear_leap: "DayWithinYear t < 365 + InLeapYear t"
  using DayWithinYear_range(2) [of t] DaysInYear_range [of "YearFromTime t"]
  by (simp add: InLeapYear_def split: if_splits)

lemma InLeapYear_range: "InLeapYear t = 0 \<or> InLeapYear t = 1"
  by (simp add: InLeapYear_def)

lemma MonthFromTime_range: "0 \<le> MonthFromTime t" "MonthFromTime t \<le> 11"
  by (simp_all add: MonthFromTime_def Let_def)

lemma DateFromTime_range: "1 \<le> DateFromTime t" "DateFromTime t \<le> 31"
proof -
  define d where "d = DayWithinYear t"
  define l where "l = InLeapYear t"
  have d: "0 \<le> d" "d < 365 + l" and l: "l = 0 \<or> l = 1"
    unfolding d_def l_def using DayWithinYear_range(1) DayWithinYear_leap InLeapYear_range by simp_all
  have m: "MonthFromTime t =
     (if d < 31 then 0 else if d < 59 + l then 1 else if d < 90 + l then 2
      else if d < 120 + l then 3 else if d < 151 + l then 4 else if d < 181 + l then 5
      else if d < 212 + l then 6 else if d < 243 + l then 7 else if d < 273 + l then 8
      else if d < 304 + l then 9 else if d < 334 + l then 10 else 11)"
    by (simp add: MonthFromTime_def Let_def d_def l_def)
  have "1 \<le> DateFromTime t \<and> DateFromTime t \<le> 31"
    unfolding DateFromTime_def Let_def d_def [symmetric] l_def [symmetric] m
    using d l by auto
  then show "1 \<le> DateFromTime t" "DateFromTime t \<le> 31" by simp_all
qed

lemma clock_ranges:
  "0 \<le> HourFromTime t" "HourFromTime t \<le> 23"
  "0 \<le> MinFromTime t" "MinFromTime t \<le> 59"
  "0 \<le> SecFromTime t" "SecFromTime t \<le> 59"
  "0 \<le> msFromTime t" "msFromTime t \<le> 999"
  using pos_mod_bound [of 24 "t div 3600000"] pos_mod_bound [of 60 "t div 60000"]
    pos_mod_bound [of 60 "t div 1000"] pos_mod_bound [of 1000 t]
  by (simp_all add: HourFromTime_def MinFromTime_def SecFromTime_def msFromTime_def)

text \<open>Decimal digits: \<^verbatim>\<open>String(n).padStart(k, '0')\<close> on the ranges the Date fields have.\<close>

lemma digitChar_values:
  "digitChar 0 = CHR ''0''" "digitChar 1 = CHR ''1''" "digitChar 2 = CHR ''2''"
  "digitChar 3 = CHR ''3''" "digitChar 4 = CHR ''4''" "digitChar 5 = CHR ''5''"
  "digitChar 6 = CHR ''6''" "digitChar 7 = CHR ''7''" "digitChar 8 = CHR ''8''"
  "digitChar 9 = CHR ''9''"
  by (simp_all add: digitChar_def)

lemma isDigit_digitChar: "n < 10 \<Longrightarrow> isDigit (digitChar n)"
  unfolding isDigit_def digitChar_def by (rule nth_mem) simp

lemma digitsOf_1: "n < 10 \<Longrightarrow> digitsOf n = [digitChar n]"
  by (subst digitsOf.simps) simp

lemma digitsOf_2: "10 \<le> n \<Longrightarrow> n < 100 \<Longrightarrow> digitsOf n = [digitChar (n div 10), digitChar (n mod 10)]"
  by (subst digitsOf.simps) (simp add: digitsOf_1)

lemma digitsOf_3:
  "100 \<le> n \<Longrightarrow> n < 1000 \<Longrightarrow>
   digitsOf n = [digitChar (n div 100), digitChar (n div 10 mod 10), digitChar (n mod 10)]"
  by (subst digitsOf.simps) (simp add: digitsOf_2 div_mult2_eq [symmetric])

lemma digitsOf_4:
  "1000 \<le> n \<Longrightarrow> n < 10000 \<Longrightarrow>
   digitsOf n = [digitChar (n div 1000), digitChar (n div 100 mod 10), digitChar (n div 10 mod 10),
                 digitChar (n mod 10)]"
  by (subst digitsOf.simps) (simp add: digitsOf_3 div_mult2_eq [symmetric])

lemma nat_digit_facts:
  assumes "0 \<le> (n::int)"
  shows "nat n div 10 = nat (n div 10)" "nat n mod 10 = nat (n mod 10)"
    "nat n div 100 = nat (n div 100)" "nat n div 1000 = nat (n div 1000)"
    "nat (n div 10) mod 10 = nat (n div 10 mod 10)" "nat (n div 100) mod 10 = nat (n div 100 mod 10)"
  using assms by (simp_all add: nat_div_distrib nat_mod_distrib)

lemma pad_twoDigits:
  assumes "0 \<le> n" "n \<le> 99"
  shows "padStart 2 (CHR ''0'') (numberToString n) = twoDigits n"
proof (cases "n < 10")
  case True
  with assms have "digitsOf (nat n) = [digitChar (nat n)]" "n div 10 = 0" "n mod 10 = n"
    by (simp_all add: digitsOf_1)
  with assms show ?thesis
    by (simp add: padStart_def numberToString_def twoDigits_def digitChar_values)
next
  case False
  with assms have "digitsOf (nat n) = [digitChar (nat n div 10), digitChar (nat n mod 10)]"
    by (intro digitsOf_2) simp_all
  with assms show ?thesis
    by (simp add: padStart_def numberToString_def twoDigits_def nat_digit_facts)
qed

lemma pad_threeDigits:
  assumes "0 \<le> n" "n \<le> 999"
  shows "padStart 3 (CHR ''0'') (numberToString n) = threeDigits n"
proof -
  consider (a) "n < 10" | (b) "10 \<le> n" "n < 100" | (c) "100 \<le> n" using assms by linarith
  then show ?thesis
  proof cases
    case a
    with assms have "digitsOf (nat n) = [digitChar (nat n)]" "n div 100 = 0" "n div 10 = 0" "n mod 10 = n"
      by (simp_all add: digitsOf_1)
    with assms show ?thesis
      by (simp add: padStart_def numberToString_def threeDigits_def digitChar_values numeral_2_eq_2)
  next
    case b
    with assms have "digitsOf (nat n) = [digitChar (nat n div 10), digitChar (nat n mod 10)]"
      "n div 100 = 0" "n div 10 mod 10 = n div 10"
      by (simp_all add: digitsOf_2)
    with assms show ?thesis
      by (simp add: padStart_def numberToString_def threeDigits_def digitChar_values nat_digit_facts)
  next
    case c
    with assms have "digitsOf (nat n) =
        [digitChar (nat n div 100), digitChar (nat n div 10 mod 10), digitChar (nat n mod 10)]"
      by (intro digitsOf_3) simp_all
    with assms show ?thesis
      by (simp add: padStart_def numberToString_def threeDigits_def nat_digit_facts)
  qed
qed

lemma number_fourDigits:
  assumes "1000 \<le> n" "n \<le> 9999"
  shows "numberToString n = fourDigits n"
proof -
  from assms have "digitsOf (nat n) =
      [digitChar (nat n div 1000), digitChar (nat n div 100 mod 10), digitChar (nat n div 10 mod 10),
       digitChar (nat n mod 10)]"
    by (intro digitsOf_4) simp_all
  with assms show ?thesis
    by (simp add: numberToString_def fourDigits_def nat_digit_facts)
qed

lemma twoDigits_digits:
  assumes "0 \<le> n" "n \<le> 99"
  shows "\<exists>a b. twoDigits n = [a, b] \<and> isDigit a \<and> isDigit b"
proof -
  from assms have "nat (n div 10) < 10" "nat (n mod 10) < 10" by simp_all
  then show ?thesis by (simp add: twoDigits_def isDigit_digitChar)
qed

lemma threeDigits_digits:
  assumes "0 \<le> n" "n \<le> 999"
  shows "\<exists>a b c. threeDigits n = [a, b, c] \<and> isDigit a \<and> isDigit b \<and> isDigit c"
proof -
  from assms have "nat (n div 100) < 10" "nat (n div 10 mod 10) < 10" "nat (n mod 10) < 10" by simp_all
  then show ?thesis by (simp add: threeDigits_def isDigit_digitChar)
qed

lemma fourDigits_digits:
  assumes "0 \<le> n" "n \<le> 9999"
  shows "\<exists>a b c d. fourDigits n = [a, b, c, d] \<and> isDigit a \<and> isDigit b \<and> isDigit c \<and> isDigit d"
proof -
  from assms have "nat (n div 1000) < 10" "nat (n div 100 mod 10) < 10" "nat (n div 10 mod 10) < 10"
    "nat (n mod 10) < 10" by simp_all
  then show ?thesis by (simp add: fourDigits_def isDigit_digitChar)
qed

lemma local_ranges:
  "0 \<le> getMonth rt t" "getMonth rt t \<le> 11" "1 \<le> getDate rt t" "getDate rt t \<le> 31"
  "0 \<le> getHours rt t" "getHours rt t \<le> 23" "0 \<le> getMinutes rt t" "getMinutes rt t \<le> 59"
  "0 \<le> getSeconds rt t" "getSeconds rt t \<le> 59"
  by (simp_all add: getMonth_def getDate_def getHours_def getMinutes_def getSeconds_def
      MonthFromTime_range DateFromTime_range clock_ranges)

lemma custom_fields:
  "getFormattedTimestamp rt ''custom'' =
     numberToString (getFullYear rt (clock rt)) @ ''-'' @
     twoDigits (getMonth rt (clock rt) + 1) @ ''-'' @ twoDigits (getDate rt (clock rt)) @ '' '' @
     twoDigits (getHours rt (clock rt)) @ ''-'' @ twoDigits (getMinutes rt (clock rt)) @ ''-'' @
     twoDigits (getSeconds rt (clock rt))"
proof -
  have "padStart 2 (CHR ''0'') (numberToString (getMonth rt (clock rt) + 1)) = twoDigits (getMonth rt (clock rt) + 1)"
    "padStart 2 (CHR ''0'') (numberToString (getDate rt (clock rt))) = twoDigits (getDate rt (clock rt))"
    "padStart 2 (CHR ''0'') (numberToString (getHours rt (clock rt))) = twoDigits (getHours rt (clock rt))"
    "padStart 2 (CHR ''0'') (numberToString (getMinutes rt (clock rt))) = twoDigits (getMinutes rt (clock rt))"
    "padStart 2 (CHR ''0'') (numberToString (getSeconds rt (clock rt))) = twoDigits (getSeconds rt (clock rt))"
    using local_ranges [of rt "clock rt"] by (simp_all add: pad_twoDigits)
  then show ?thesis
    by (simp add: getFormattedTimestamp_def Let_def)
qed

lemma custom_matches:
  assumes "0 \<le> y" "y \<le> 9999" "0 \<le> m" "m \<le> 99" "0 \<le> d" "d \<le> 99" "0 \<le> h" "h \<le> 99"
    "0 \<le> mi" "mi \<le> 99" "0 \<le> s" "s \<le> 99"
  shows "matchesLayout ''####-##-## ##-##-##''
           (fourDigits y @ ''-'' @ twoDigits m @ ''-'' @ twoDigits d @ '' '' @
            twoDigits h @ ''-'' @ twoDigits mi @ ''-'' @ twoDigits s)"
proof -
  from fourDigits_digits [OF assms(1,2)] obtain y1 y2 y3 y4 where
    y: "fourDigits y = [y1, y2, y3, y4]" "isDigit y1" "isDigit y2" "isDigit y3" "isDigit y4" by blast
  from twoDigits_digits [OF assms(3,4)] obtain m1 m2 where
    m: "twoDigits m = [m1, m2]" "isDigit m1" "isDigit m2" by blast
  from twoDigits_digits [OF assms(5,6)] obtain d1 d2 where
    d: "twoDigits d = [d1, d2]" "isDigit d1" "isDigit d2" by blast
  from twoDigits_digits [OF assms(7,8)] obtain h1 h2 where
    h: "twoDigits h = [h1, h2]" "isDigit h1" "isDigit h2" by blast
  from twoDigits_digits [OF assms(9,10)] obtain i1 i2 where
    i: "twoDigits mi = [i1, i2]" "isDigit i1" "isDigit i2" by blast
  from twoDigits_digits [OF assms(11,12)] obtain s1 s2 where
    s: "twoDigits s = [s1, s2]" "isDigit s1" "isDigit s2" by blast
  show ?thesis by (simp add: y m d h i s)
qed

lemma sample_local_fields:
  "getFullYear sampleEnv (clock sampleEnv) = 2024" "getMonth sampleEnv (clock sampleEnv) = 3"
  "getDate sampleEnv (clock sampleEnv) = 5" "getHours sampleEnv (clock sampleEnv) = 13"
  "getMinutes sampleEnv (clock sampleEnv) = 30" "getSeconds sampleEnv (clock sampleEnv) = 0"
proof -
  have y: "YearFromTime 1712323800000 = 2024"
    by (simp add: YearFromTime_def Day_def msPerDay_def DayFromYear_def Let_def)
  have w: "DayWithinYear 1712323800000 = 95" "InLeapYear 1712323800000 = 1"
    by (simp_all add: DayWithinYear_def InLeapYear_def y Day_def msPerDay_def DayFromYear_def DaysInYear_def)
  have m: "MonthFromTime 1712323800000 = 3"
    by (simp add: MonthFromTime_def w Let_def)
  show "getFullYear sampleEnv (clock sampleEnv) = 2024" "getMonth sampleEnv (clock sampleEnv) = 3"
    "getDate sampleEnv (clock sampleEnv) = 5" "getHours sampleEnv (clock sampleEnv) = 13"
    "getMinutes sampleEnv (clock sampleEnv) = 30" "getSeconds sampleEnv (clock sampleEnv) = 0"
    by (simp_all add: getFullYear_def getMonth_def getDate_def getHours_def getMinutes_def
        getSeconds_def LocalTime_def sampleEnv_def y m w DateFromTime_def Let_def HourFromTime_def
        MinFromTime_def SecFromTime_def)
qed

lemma iso_fields:
  "toISOString t =
     isoYear (YearFromTime t) @ ''-'' @ twoDigits (MonthFromTime t + 1) @ ''-'' @
     twoDigits (DateFromTime t) @ ''T'' @ twoDigits (HourFromTime t) @ '':'' @
     twoDigits (MinFromTime t) @ '':'' @ twoDigits (SecFromTime t) @ ''.'' @
     threeDigits (msFromTime t) @ ''Z''"
proof -
  have "padStart 2 (CHR ''0'') (numberToString (MonthFromTime t + 1)) = twoDigits (MonthFromTime t + 1)"
    "padStart 2 (CHR ''0'') (numberToString (DateFromTime t)) = twoDigits (DateFromTime t)"
    "padStart 2 (CHR ''0'') (numberToString (HourFromTime t)) = twoDigits (HourFromTime t)"
    "padStart 2 (CHR ''0'') (numberToString (MinFromTime t)) = twoDigits (MinFromTime t)"
    "padStart 2 (CHR ''0'') (numberToString (SecFromTime t)) = twoDigits (SecFromTime t)"
    "padStart 3 (CHR ''0'') (numberToString (msFromTime t)) = threeDigits (msFromTime t)"
    using MonthFromTime_range [of t] DateFromTime_range [of t] clock_ranges [of t]
    by (simp_all add: pad_twoDigits pad_threeDigits)
  then show ?thesis by (simp add: toISOString_def)
qed

lemma pad_fourDigits:
  assumes "0 \<le> n" "n \<le> 9999"
  shows "padStart 4 (CHR ''0'') (numberToString n) = fourDigits n"
proof -
  consider (a) "n < 10" | (b) "10 \<le> n" "n < 100" | (c) "100 \<le> n" "n < 1000" | (d) "1000 \<le> n"
    using assms by linarith
  then show ?thesis
  proof cases
    case a
    with assms have "digitsOf (nat n) = [digitChar (nat n)]"
      "n div 1000 = 0" "n div 100 = 0" "n div 10 = 0" "n mod 10 = n"
      by (simp_all add: digitsOf_1)
    with assms show ?thesis
      by (simp add: padStart_def numberToString_def fourDigits_def digitChar_values numeral_3_eq_3)
  next
    case b
    with assms have "digitsOf (nat n) = [digitChar (nat n div 10), digitChar (nat n mod 10)]"
      "n div 1000 = 0" "n div 100 = 0" "n div 10 mod 10 = n div 10"
      by (simp_all add: digitsOf_2)
    with assms show ?thesis
      by (simp add: padStart_def numberToString_def fourDigits_def digitChar_values nat_digit_facts
          numeral_2_eq_2)
  next
    case c
    with assms have "digitsOf (nat n) =
        [digitChar (nat n div 100), digitChar (nat n div 10 mod 10), digitChar (nat n mod 10)]"
      "n div 1000 = 0" "n div 100 mod 10 = n div 100"
      by (simp_all add: digitsOf_3)
    with assms show ?thesis
      by (simp add: padStart_def numberToString_def fourDigits_def digitChar_values nat_digit_facts)
  next
    case d
    with assms have "digitsOf (nat n) =
        [digitChar (nat n div 1000), digitChar (nat n div 100 mod 10), digitChar (nat n div 10 mod 10),
         digitChar (nat n mod 10)]"
      by (intro digitsOf_4) simp_all
    with assms show ?thesis
      by (simp add: padStart_def numberToString_def fourDigits_def nat_digit_facts)
  qed
qed


lemma iso_matches:
  assumes "0 \<le> y" "y \<le> 9999" "0 \<le> m" "m \<le> 99" "0 \<le> d" "d \<le> 99" "0 \<le> h" "h \<le> 99"
    "0 \<le> mi" "mi \<le> 99" "0 \<le> s" "s \<le> 99" "0 \<le> ms" "ms \<le> 999"
  shows "matchesLayout ''####-##-##T##:##:##.###Z''
           (fourDigits y @ ''-'' @ twoDigits m @ ''-'' @ twoDigits d @ ''T'' @
            twoDigits h @ '':'' @ twoDigits mi @ '':'' @ twoDigits s @ ''.'' @ threeDigits ms @ ''Z'')"
proof -
  from fourDigits_digits [OF assms(1,2)] obtain y1 y2 y3 y4 where
    y: "fourDigits y = [y1, y2, y3, y4]" "isDigit y1" "isDigit y2" "isDigit y3" "isDigit y4" by blast
  from twoDigits_digits [OF assms(3,4)] obtain m1 m2 where
    m: "twoDigits m = [m1, m2]" "isDigit m1" "isDigit m2" by blast
  from twoDigits_digits [OF assms(5,6)] obtain d1 d2 where
    d: "twoDigits d = [d1, d2]" "isDigit d1" "isDigit d2" by blast
  from twoDigits_digits [OF assms(7,8)] obtain h1 h2 where
    h: "twoDigits h = [h1, h2]" "isDigit h1" "isDigit h2" by blast
  from twoDigits_digits [OF assms(9,10)] obtain i1 i2 where
    i: "twoDigits mi = [i1, i2]" "isDigit i1" "isDigit i2" by blast
  from twoDigits_digits [OF assms(11,12)] obtain s1 s2 where
    s: "twoDigits s = [s1, s2]" "isDigit s1" "isDigit s2" by blast
  from threeDigits_digits [OF assms(13,14)] obtain f1 f2 f3 where
    f: "threeDigits ms = [f1, f2, f3]" "isDigit f1" "isDigit f2" "isDigit f3" by blast
  show ?thesis by (simp add: y m d h i s f)
qed

lemma sample_utc_fields:
  "YearFromTime (clock sampleEnv) = 2024" "MonthFromTime (clock sampleEnv) = 3"
  "DateFromTime (clock sampleEnv) = 5" "HourFromTime (clock sampleEnv) = 18"
  "MinFromTime (clock sampleEnv) = 30" "SecFromTime (clock sampleEnv) = 0"
  "msFromTime (clock sampleEnv) = 0"
proof -
  have y: "YearFromTime 1712341800000 = 2024"
    by (simp add: YearFromTime_def Day_def msPerDay_def DayFromYear_def Let_def)
  have w: "DayWithinYear 1712341800000 = 95" "InLeapYear 1712341800000 = 1"
    by (simp_all add: DayWithinYear_def InLeapYear_def y Day_def msPerDay_def DayFromYear_def DaysInYear_def)
  have m: "MonthFromTime 1712341800000 = 3"
    by (simp add: MonthFromTime_def w Let_def)
  show "YearFromTime (clock sampleEnv) = 2024" "MonthFromTime (clock sampleEnv) = 3"
  "DateFromTime (clock sampleEnv) = 5" "HourFromTime (clock sampleEnv) = 18"
  "MinFromTime (clock sampleEnv) = 30" "SecFromTime (clock sampleEnv) = 0"
  "msFromTime (clock sampleEnv) = 0"
    by (simp_all add: sampleEnv_def y m w DateFromTime_def Let_def HourFromTime_def
        MinFromTime_def SecFromTime_def msFromTime_def)
qed

lemma year999_fields:
  "getFullYear year999Env (clock year999Env) = 999" "getMonth year999Env (clock year999Env) = 11"
  "getDate year999Env (clock year999Env) = 31" "getHours year999Env (clock year999Env) = 23"
  "getMinutes year999Env (clock year999Env) = 59" "getSeconds year999Env (clock year999Env) = 59"
proof -
  have y: "YearFromTime (- 30610224001000) = 999"
    by (simp add: YearFromTime_def Day_def msPerDay_def DayFromYear_def Let_def)
  have w: "DayWithinYear (- 30610224001000) = 364" "InLeapYear (- 30610224001000) = 0"
    by (simp_all add: DayWithinYear_def InLeapYear_def y Day_def msPerDay_def DayFromYear_def DaysInYear_def)
  have m: "MonthFromTime (- 30610224001000) = 11"
    by (simp add: MonthFromTime_def w Let_def)
  show "getFullYear year999Env (clock year999Env) = 999" "getMonth year999Env (clock year999Env) = 11"
  "getDate year999Env (clock year999Env) = 31" "getHours year999Env (clock year999Env) = 23"
  "getMinutes year999Env (clock year999Env) = 59" "getSeconds year999Env (clock year999Env) = 59"
    by (simp_all add: getFullYear_def getMonth_def getDate_def getHours_def getMinutes_def
        getSeconds_def LocalTime_def year999Env_def sampleEnv_def y m w DateFromTime_def Let_def
        HourFromTime_def MinFromTime_def SecFromTime_def)
qed

section \<open>The claims\<close>

subsection \<open>C1: the Windows escaping and PowerShell's single-quoted literal\<close>

text \<open>
  C1 says that, for every text, the value PowerShell reads from the single-quoted literal of
  the generated \<^verbatim>\<open>Set-Clipboard\<close> command is the text. It is not: the literal undoes
  only the doubling of single quotes (\<open>setClipboardValue_windowsCommand\<close>), so the
  backquotes and the backslashes that the other four replacements add stay in the value.
  For the text \<^verbatim>\<open>$\<close> the escaped text is a backquote and a dollar sign, and that is the
  value PowerShell puts on the clipboard.
\<close>

theorem windows_escaping_changes_dollar:
  "escapedText [dollar] = [backtick, dollar] \<and>
   setClipboardValue (windowsCommand [dollar]) = Some ([backtick, dollar], tl windowsSuffix) \<and>
   setClipboardValue (windowsCommand [dollar]) \<noteq> Some ([dollar], tl windowsSuffix)"
  by (simp add: setClipboardValue_windowsCommand escapedText_def)

subsection \<open>C2: the macOS and Linux escaping and the shell's double quotes\<close>

text \<open>
  C2 says that, for every text that holds a double quote, the word a POSIX shell reads from
  the double-quoted argument of the generated \<^verbatim>\<open>echo -n\<close> command is the text. It is
  not: the code escapes the double quotes and nothing else, so a backslash before a double
  quote escapes the backslash that was meant to escape the quote. For the text made of a
  backslash and a double quote the escaping writes two backslashes and a double quote; the
  shell reads one backslash and the end of the word, on macOS and on Linux. A dollar sign or
  a backquote in the text starts an expansion in the shell.
\<close>

theorem posix_escaping_breaks_backslash_quote:
  "escapeDoubleQuotes [backslash, dquote] = [backslash, backslash, dquote] \<and>
   echoArgument (pbcopyCommand [backslash, dquote]) =
     Some (Closed [backslash] (dquote # '' | pbcopy'')) \<and>
   echoArgument (pbcopyCommand [backslash, dquote]) \<noteq>
     Some (Closed [backslash, dquote] '' | pbcopy'') \<and>
   echoArgument (xclipCommand [backslash, dquote]) =
     Some (Closed [backslash] (dquote # '' | xclip -selection clipboard'')) \<and>
   echoArgument (xclipCommand [backslash, dquote]) \<noteq>
     Some (Closed [backslash, dquote] '' | xclip -selection clipboard'') \<and>
   echoArgument (pbcopyCommand [dquote, dollar, CHR ''x'']) = Some Expands \<and>
   echoArgument (xclipCommand [dquote, backtick, CHR ''x'', backtick]) = Some Expands"
  by (simp add: echoArgument_def pbcopyCommand_def xclipCommand_def escapeDoubleQuotes_def
      echoPrefix_def)

subsection \<open>C3: Linux without xclip\<close>

text \<open>
  C3: on Linux, whenever the xclip command is rejected (the utility is missing, or it exits
  with an error), \<^verbatim>\<open>copyPasteText\<close> throws an error whose message names xclip, and the
  only command it has issued is the xclip command: xdotool is never run.
\<close>

theorem linux_clipboard_failure:
  assumes "platform rt = ''linux''" and "exec rt (execs h) (xclipCommand t) = Some e"
  shows "\<exists>w. fst (copyPasteText rt t h) = Inl w \<and>
           message w = ''Linux support requires xclip/xdotool. Please install these utilities and try again.'' \<and>
           strIncludes (message w) ''xclip'' \<and>
           execs (snd (copyPasteText rt t h)) = execs h @ [Issued (xclipCommand t), Failed (xclipCommand t) e] \<and>
           Issued xdotoolCommand \<notin> set (newExecs h (snd (copyPasteText rt t h)))"
proof -
  from assms(1) have "platform rt \<noteq> ''win32''" "platform rt \<noteq> ''darwin''" by simp_all
  from copyPasteText_linux_clipboard_fails [OF this assms(2)] show ?thesis
    by (simp add: newExecs_def xclip_not_xdotool [symmetric])
qed

theorem linux_clipboard_failure_witness:
  "platform noXclipEnv = ''linux'' \<and>
   exec noXclipEnv (execs emptyHost) (xclipCommand ''4/5/2024'') =
     Some (commandFailed (xclipCommand ''4/5/2024'') ''/bin/sh: 1: xclip: not found'') \<and>
   fst (copyPasteText noXclipEnv ''4/5/2024'' emptyHost) =
     Inl (Error ''Linux support requires xclip/xdotool. Please install these utilities and try again.'') \<and>
   execs (snd (copyPasteText noXclipEnv ''4/5/2024'' emptyHost)) =
     [Issued (xclipCommand ''4/5/2024''),
      Failed (xclipCommand ''4/5/2024'') (commandFailed (xclipCommand ''4/5/2024'') ''/bin/sh: 1: xclip: not found'')]"
proof -
  have p: "platform noXclipEnv = ''linux''"
    by (simp add: noXclipEnv_def sampleEnv_def)
  have x: "exec noXclipEnv (execs emptyHost) (xclipCommand ''4/5/2024'') =
     Some (commandFailed (xclipCommand ''4/5/2024'') ''/bin/sh: 1: xclip: not found'')"
    by (simp add: noXclipEnv_def sampleEnv_def xclipMissing_def xclipCommand_def echoPrefix_def
        escapeDoubleQuotes_def)
  from linux_clipboard_failure [OF p x] p x show ?thesis
    by (cases "fst (copyPasteText noXclipEnv ''4/5/2024'' emptyHost)") (auto simp: emptyHost_def message_eq)
qed

subsection \<open>C4: the acknowledgment\<close>

text \<open>
  C4: for every key press, \<^verbatim>\<open>onKeyDown\<close> returns without throwing; when
  \<^verbatim>\<open>copyPasteText\<close> succeeds, \<^verbatim>\<open>showOk\<close> is called exactly once; when it throws,
  \<^verbatim>\<open>showOk\<close> is not called, the error is logged at level error, and no further command
  is run.
\<close>

theorem onKeyDown_acknowledges:
  "let ts = getFormattedTimestamp rt (selectedFormat ev);
       h1 = logLine INFO (''Got timestamp: '' @ ts @ '' (format: '' @ selectedFormat ev @ '')'') h;
       pasted = copyPasteText rt ts h1;
       handled = onKeyDown rt ev h
   in fst handled = Inr () \<and>
      (fst pasted = Inr () \<longrightarrow> showOkCalls (snd handled) = showOkCalls h + 1) \<and>
      (\<forall>e. fst pasted = Inl e \<longrightarrow>
         showOkCalls (snd handled) = showOkCalls h \<and>
         logger (snd handled) = logger (snd pasted) @ [(ERROR, ''Error getting timestamp: '' @ errorToString e)] \<and>
         execs (snd handled) = execs (snd pasted))"
  unfolding Let_def onKeyDown_def
  by (auto split: prod.splits sum.splits option.splits dest: copyPasteText_keeps_showOkCalls)

theorem onKeyDown_acknowledges_witness:
  "fst (copyPasteText sampleEnv ''4/5/2024''
          (logLine INFO ''Got timestamp: 4/5/2024 (format: short)'' emptyHost)) = Inr () \<and>
   showOkCalls (snd (onKeyDown sampleEnv shortEvent emptyHost)) = 1 \<and>
   fst (copyPasteText noXclipEnv ''4/5/2024''
          (logLine INFO ''Got timestamp: 4/5/2024 (format: short)'' emptyHost)) =
     Inl (Error ''Linux support requires xclip/xdotool. Please install these utilities and try again.'') \<and>
   showOkCalls (snd (onKeyDown noXclipEnv shortEvent emptyHost)) = 0 \<and>
   last (logger (snd (onKeyDown noXclipEnv shortEvent emptyHost))) =
     (ERROR, ''Error getting timestamp: Error: Linux support requires xclip/xdotool. Please install these utilities and try again.'') \<and>
   fst (onKeyDown noXclipEnv shortEvent emptyHost) = Inr ()"
  using onKeyDown_acknowledges [of sampleEnv shortEvent emptyHost]
    onKeyDown_acknowledges [of noXclipEnv shortEvent emptyHost]
  by (simp add: onKeyDown_def copyPasteText_def execAsync_def logLine_def getFormattedTimestamp_def
      selectedFormat_def sampleEnv_def noXclipEnv_def shortEvent_def emptyHost_def xclipMissing_def
      xclipCommand_def xdotoolCommand_def echoPrefix_def escapeDoubleQuotes_def commandFailed_def)

subsection \<open>C5: the error a branch throws\<close>

text \<open>
  C5, as amended: when \<^verbatim>\<open>copyPasteText\<close> throws, the last command it ran has failed. On
  the Windows and macOS branches the failure is logged at level error and thrown as one
  error, and both texts are \<^verbatim>\<open>Error inserting timestamp on\<close>, the platform's name, a
  colon and the text of the underlying error. On the Linux branch a fixed warning is logged
  and a fixed error is thrown, which names Linux and the two utilities.
\<close>

theorem failure_is_wrapped:
  assumes "fst (copyPasteText rt t h) = Inl w"
  shows "(platform rt = ''win32'' \<or> platform rt = ''darwin'' \<longrightarrow>
            (\<exists>c e. last (execs (snd (copyPasteText rt t h))) = Failed c e \<and>
               message w = ''Error inserting timestamp on '' @ platformName (platform rt) @ '': '' @ errorToString e \<and>
               last (logger (snd (copyPasteText rt t h))) = (ERROR, message w) \<and>
               strIncludes (message w) (platformName (platform rt)) \<and>
               strIncludes (message w) (errorToString e))) \<and>
         (platform rt \<noteq> ''win32'' \<and> platform rt \<noteq> ''darwin'' \<longrightarrow>
            (\<exists>c e. last (execs (snd (copyPasteText rt t h))) = Failed c e) \<and>
            message w = ''Linux support requires xclip/xdotool. Please install these utilities and try again.'' \<and>
            last (logger (snd (copyPasteText rt t h))) = (WARN, ''Linux support requires xclip/xdotool'') \<and>
            strIncludes (message w) (platformName (platform rt)))"
proof -
  have inc: "strIncludes (''Error inserting timestamp on '' @ p @ '': '' @ x) p"
            "strIncludes (''Error inserting timestamp on '' @ p @ '': '' @ x) x" for p x
    using strIncludes_append [of "''Error inserting timestamp on ''" p "'': '' @ x"]
      strIncludes_suffix [of "''Error inserting timestamp on '' @ p @ '': ''" x]
    by simp_all
  consider (win) "platform rt = ''win32''" | (mac) "platform rt = ''darwin''"
    | (lin) "platform rt \<noteq> ''win32''" "platform rt \<noteq> ''darwin''"
    by blast
  then show ?thesis
  proof cases
    case win
    show ?thesis
    proof (cases "exec rt (execs h) (windowsCommand t)")
      case None
      from copyPasteText_win32_exits [OF win None] assms show ?thesis by simp
    next
      case (Some e)
      from copyPasteText_win32_fails [OF win Some] assms inc [of "''Windows''" "errorToString e"]
      show ?thesis by (auto simp: platformName_def win windowsLogged_def)
    qed
  next
    case mac
    show ?thesis
    proof (cases "exec rt (execs h) (pbcopyCommand t)")
      case (Some e)
      from copyPasteText_darwin_clipboard_fails [OF mac Some] assms inc [of "''macOS''" "errorToString e"]
      show ?thesis by (auto simp: platformName_def mac)
    next
      case None
      show ?thesis
      proof (cases "exec rt (execs h @ [Issued (pbcopyCommand t), Exited (pbcopyCommand t)]) osascriptCommand")
        case None': None
        from copyPasteText_darwin_exits [OF mac None None'] assms show ?thesis by simp
      next
        case (Some e)
        from copyPasteText_darwin_keystroke_fails [OF mac None Some] assms
          inc [of "''macOS''" "errorToString e"]
        show ?thesis by (auto simp: platformName_def mac)
      qed
    qed
  next
    case lin
    show ?thesis
    proof (cases "exec rt (execs h) (xclipCommand t)")
      case (Some e)
      from copyPasteText_linux_clipboard_fails [OF lin Some] assms
      show ?thesis by (auto simp: platformName_def lin)
    next
      case None
      show ?thesis
      proof (cases "exec rt (execs h @ [Issued (xclipCommand t), Exited (xclipCommand t)]) xdotoolCommand")
        case None': None
        from copyPasteText_linux_exits [OF lin None None'] assms show ?thesis by simp
      next
        case (Some e)
        from copyPasteText_linux_keystroke_fails [OF lin None Some] assms
        show ?thesis by (auto simp: platformName_def lin)
      qed
    qed
  qed
qed

theorem failure_is_wrapped_witness:
  "fst (copyPasteText (windowsEnv\<lparr>exec := allFail\<rparr>) ''4/5/2024'' emptyHost) =
     Inl (Error (''Error inserting timestamp on Windows: Error: Command failed: '' @
                 windowsCommand ''4/5/2024'' @ [newline] @ ''Access is denied.'' @ [newline])) \<and>
   last (logger (snd (copyPasteText (windowsEnv\<lparr>exec := allFail\<rparr>) ''4/5/2024'' emptyHost))) =
     (ERROR, ''Error inserting timestamp on Windows: Error: Command failed: '' @
             windowsCommand ''4/5/2024'' @ [newline] @ ''Access is denied.'' @ [newline]) \<and>
   fst (copyPasteText (macEnv\<lparr>exec := allFail\<rparr>) ''4/5/2024'' emptyHost) =
     Inl (Error (''Error inserting timestamp on macOS: Error: Command failed: '' @
                 pbcopyCommand ''4/5/2024'' @ [newline] @ ''Access is denied.'' @ [newline])) \<and>
   fst (copyPasteText noXclipEnv ''4/5/2024'' emptyHost) =
     Inl (Error ''Linux support requires xclip/xdotool. Please install these utilities and try again.'')"
proof -
  have w: "copyPasteText (windowsEnv\<lparr>exec := allFail\<rparr>) ''4/5/2024'' emptyHost =
     (Inl (Error (''Error inserting timestamp on Windows: '' @
                  errorToString (commandFailed (windowsCommand ''4/5/2024'') ''Access is denied.''))),
      emptyHost\<lparr>logger := logger emptyHost @ windowsLogged ''4/5/2024'' @
           [(ERROR, ''Error inserting timestamp on Windows: '' @
                    errorToString (commandFailed (windowsCommand ''4/5/2024'') ''Access is denied.''))],
         execs := execs emptyHost @ [Issued (windowsCommand ''4/5/2024''),
           Failed (windowsCommand ''4/5/2024'') (commandFailed (windowsCommand ''4/5/2024'') ''Access is denied.'')]\<rparr>)"
    by (rule copyPasteText_win32_fails) (simp_all add: windowsEnv_def sampleEnv_def allFail_def)
  have m: "copyPasteText (macEnv\<lparr>exec := allFail\<rparr>) ''4/5/2024'' emptyHost =
     (Inl (Error (''Error inserting timestamp on macOS: '' @
                  errorToString (commandFailed (pbcopyCommand ''4/5/2024'') ''Access is denied.''))),
      emptyHost\<lparr>logger := logger emptyHost @
           [(ERROR, ''Error inserting timestamp on macOS: '' @
                    errorToString (commandFailed (pbcopyCommand ''4/5/2024'') ''Access is denied.''))],
         execs := execs emptyHost @ [Issued (pbcopyCommand ''4/5/2024''),
           Failed (pbcopyCommand ''4/5/2024'') (commandFailed (pbcopyCommand ''4/5/2024'') ''Access is denied.'')]\<rparr>)"
    by (rule copyPasteText_darwin_clipboard_fails) (simp_all add: macEnv_def sampleEnv_def allFail_def)
  have l: "copyPasteText noXclipEnv ''4/5/2024'' emptyHost =
     (Inl (Error ''Linux support requires xclip/xdotool. Please install these utilities and try again.''),
      emptyHost\<lparr>logger := logger emptyHost @ [(WARN, ''Linux support requires xclip/xdotool'')],
         execs := execs emptyHost @ [Issued (xclipCommand ''4/5/2024''),
           Failed (xclipCommand ''4/5/2024'') (commandFailed (xclipCommand ''4/5/2024'') ''/bin/sh: 1: xclip: not found'')]\<rparr>)"
    by (rule copyPasteText_linux_clipboard_fails)
      (simp_all add: noXclipEnv_def sampleEnv_def emptyHost_def xclipMissing_def xclipCommand_def
        echoPrefix_def escapeDoubleQuotes_def)
  have hyps:
    "fst (copyPasteText (windowsEnv\<lparr>exec := allFail\<rparr>) ''4/5/2024'' emptyHost) =
       Inl (Error (''Error inserting timestamp on Windows: '' @
                  errorToString (commandFailed (windowsCommand ''4/5/2024'') ''Access is denied.'')))"
    "fst (copyPasteText (macEnv\<lparr>exec := allFail\<rparr>) ''4/5/2024'' emptyHost) =
       Inl (Error (''Error inserting timestamp on macOS: '' @
                  errorToString (commandFailed (pbcopyCommand ''4/5/2024'') ''Access is denied.'')))"
    "fst (copyPasteText noXclipEnv ''4/5/2024'' emptyHost) =
       Inl (Error ''Linux support requires xclip/xdotool. Please install these utilities and try again.'')"
    by (simp_all add: w m l)
  note used = failure_is_wrapped [OF hyps(1)] failure_is_wrapped [OF hyps(2)] failure_is_wrapped [OF hyps(3)]
  from used show ?thesis
    unfolding w m l by (simp add: commandFailed_def)
qed

text \<open>
  C5 as stated fails on the Linux branch: when xclip is missing, neither the thrown message
  nor the logged line holds the text of the shell's error.
\<close>

theorem failure_is_wrapped_counterexample:
  "platform noXclipEnv = ''linux'' \<and>
   execs (snd (copyPasteText noXclipEnv ''4/5/2024'' emptyHost)) =
     [Issued (xclipCommand ''4/5/2024''),
      Failed (xclipCommand ''4/5/2024'') (commandFailed (xclipCommand ''4/5/2024'') ''/bin/sh: 1: xclip: not found'')] \<and>
   fst (copyPasteText noXclipEnv ''4/5/2024'' emptyHost) =
     Inl (Error ''Linux support requires xclip/xdotool. Please install these utilities and try again.'') \<and>
   \<not> strIncludes ''Linux support requires xclip/xdotool. Please install these utilities and try again.''
       (errorToString (commandFailed (xclipCommand ''4/5/2024'') ''/bin/sh: 1: xclip: not found'')) \<and>
   logger (snd (copyPasteText noXclipEnv ''4/5/2024'' emptyHost)) =
     [(WARN, ''Linux support requires xclip/xdotool'')] \<and>
   \<not> strIncludes ''Linux support requires xclip/xdotool''
       (errorToString (commandFailed (xclipCommand ''4/5/2024'') ''/bin/sh: 1: xclip: not found''))"
proof -
  have l: "copyPasteText noXclipEnv ''4/5/2024'' emptyHost =
     (Inl (Error ''Linux support requires xclip/xdotool. Please install these utilities and try again.''),
      emptyHost\<lparr>logger := logger emptyHost @ [(WARN, ''Linux support requires xclip/xdotool'')],
         execs := execs emptyHost @ [Issued (xclipCommand ''4/5/2024''),
           Failed (xclipCommand ''4/5/2024'') (commandFailed (xclipCommand ''4/5/2024'') ''/bin/sh: 1: xclip: not found'')]\<rparr>)"
    by (rule copyPasteText_linux_clipboard_fails)
      (simp_all add: noXclipEnv_def sampleEnv_def emptyHost_def xclipMissing_def xclipCommand_def
        echoPrefix_def escapeDoubleQuotes_def)
  show ?thesis
    unfolding l by (simp add: noXclipEnv_def sampleEnv_def emptyHost_def commandFailed_def)
qed

subsection \<open>C6: the custom layout\<close>

text \<open>
  C6, as amended: for every instant and every local time zone, the selector
  \<^verbatim>\<open>"custom"\<close> gives the local year in decimal as \<^verbatim>\<open>getFullYear()\<close> returns it,
  without padding, a hyphen, the month (1 to 12) and the day (1 to 31) as two digits each
  with a hyphen between them, a space, and the hours, minutes and seconds as two digits
  each, separated by hyphens. For every instant whose local year is from 1000 to 9999 the
  string has the fixed layout \<^verbatim>\<open>YYYY-MM-DD HH-MM-SS\<close>. At 2024-04-05T18:30:00Z, five
  hours west of Greenwich, the string is \<^verbatim>\<open>2024-04-05 13-30-00\<close>.
\<close>

theorem custom_layout:
  "let now = clock rt; s = getFormattedTimestamp rt ''custom'' in
     s = numberToString (getFullYear rt now) @ ''-'' @
         twoDigits (getMonth rt now + 1) @ ''-'' @ twoDigits (getDate rt now) @ '' '' @
         twoDigits (getHours rt now) @ ''-'' @ twoDigits (getMinutes rt now) @ ''-'' @
         twoDigits (getSeconds rt now) \<and>
     1 \<le> getMonth rt now + 1 \<and> getMonth rt now + 1 \<le> 12 \<and>
     1 \<le> getDate rt now \<and> getDate rt now \<le> 31 \<and>
     0 \<le> getHours rt now \<and> getHours rt now \<le> 23 \<and>
     0 \<le> getMinutes rt now \<and> getMinutes rt now \<le> 59 \<and>
     0 \<le> getSeconds rt now \<and> getSeconds rt now \<le> 59 \<and>
     (1000 \<le> getFullYear rt now \<and> getFullYear rt now \<le> 9999 \<longrightarrow>
        matchesLayout ''####-##-## ##-##-##'' s)"
proof -
  have r: "0 \<le> getMonth rt (clock rt) + 1" "getMonth rt (clock rt) + 1 \<le> 99"
    "0 \<le> getDate rt (clock rt)" "getDate rt (clock rt) \<le> 99"
    "0 \<le> getHours rt (clock rt)" "getHours rt (clock rt) \<le> 99"
    "0 \<le> getMinutes rt (clock rt)" "getMinutes rt (clock rt) \<le> 99"
    "0 \<le> getSeconds rt (clock rt)" "getSeconds rt (clock rt) \<le> 99"
    using local_ranges [of rt "clock rt"] by simp_all
  have "matchesLayout ''####-##-## ##-##-##'' (getFormattedTimestamp rt ''custom'')"
    if y: "1000 \<le> getFullYear rt (clock rt)" "getFullYear rt (clock rt) \<le> 9999"
  proof -
    from y have y0: "0 \<le> getFullYear rt (clock rt)" by simp
    show ?thesis
      unfolding custom_fields number_fourDigits [OF y]
      by (rule custom_matches [OF y0 y(2) r])
  qed
  then show ?thesis
    using local_ranges [of rt "clock rt"] custom_fields [of rt] by (simp add: Let_def)
qed

theorem custom_layout_witness:
  "1000 \<le> getFullYear sampleEnv (clock sampleEnv) \<and> getFullYear sampleEnv (clock sampleEnv) \<le> 9999 \<and>
   getFormattedTimestamp sampleEnv ''custom'' = ''2024-04-05 13-30-00'' \<and>
   matchesLayout ''####-##-## ##-##-##'' (getFormattedTimestamp sampleEnv ''custom'')"
  using custom_layout [of sampleEnv]
  by (simp add: Let_def sample_local_fields number_fourDigits fourDigits_def twoDigits_def digitChar_def
      isDigit_def)

text \<open>
  C6 as stated fails in the last second of the year 999: the year is written with three
  digits, and the string is not in the layout.
\<close>

theorem custom_layout_counterexample:
  "getFormattedTimestamp year999Env ''custom'' = ''999-12-31 23-59-59'' \<and>
   \<not> matchesLayout ''####-##-## ##-##-##'' (getFormattedTimestamp year999Env ''custom'')"
proof -
  have "getFormattedTimestamp year999Env ''custom'' = ''999-12-31 23-59-59''"
    by (simp add: getFormattedTimestamp_def Let_def year999_fields numberToString_def padStart_def
        digitsOf_2 digitsOf_3 digitChar_def)
  then show ?thesis by (simp add: isDigit_def)
qed

subsection \<open>C7: the selectors that fall back to the short date\<close>

text \<open>
  C7: for every instant and locale, a selector that is none of the five known ones, a
  missing selector (which \<^verbatim>\<open>onKeyDown\<close> turns into \<^verbatim>\<open>"default"\<close>) and the selector
  \<^verbatim>\<open>"short"\<close> give the same string, the runtime's \<^verbatim>\<open>toLocaleDateString()\<close> of the
  instant. \<^verbatim>\<open>getFormattedTimestamp\<close> has no branch that throws: it returns a string for
  every selector.
\<close>

theorem unknown_selector_is_short:
  assumes "fmt \<noteq> ''short''" "fmt \<noteq> ''long''" "fmt \<noteq> ''time''" "fmt \<noteq> ''iso''" "fmt \<noteq> ''custom''"
  shows "getFormattedTimestamp rt fmt = getFormattedTimestamp rt ''short'' \<and>
         getFormattedTimestamp rt (selectedFormat \<lparr>settings = None\<rparr>) = getFormattedTimestamp rt ''short'' \<and>
         getFormattedTimestamp rt (selectedFormat \<lparr>settings = Some \<lparr>format = None\<rparr>\<rparr>) =
           getFormattedTimestamp rt ''short'' \<and>
         getFormattedTimestamp rt ''short'' = toLocaleDateString rt (clock rt)"
  using assms by (simp add: getFormattedTimestamp_def selectedFormat_def)

theorem unknown_selector_is_short_witness:
  "getFormattedTimestamp sampleEnv ''Short'' = ''4/5/2024'' \<and>
   getFormattedTimestamp sampleEnv ''short'' = ''4/5/2024'' \<and>
   getFormattedTimestamp sampleEnv (selectedFormat \<lparr>settings = None\<rparr>) = ''4/5/2024''"
  using unknown_selector_is_short [of "''Short''" sampleEnv]
  by (simp add: getFormattedTimestamp_def sampleEnv_def selectedFormat_def)

subsection \<open>C8: the ISO layout\<close>

text \<open>
  C8: for every instant, the selector \<^verbatim>\<open>"iso"\<close> gives \<^verbatim>\<open>toISOString()\<close> of the
  instant: the fields of the instant in UTC (the local time zone has no part in it), the
  milliseconds as three digits and a final \<^verbatim>\<open>Z\<close>, in the layout
  \<^verbatim>\<open>YYYY-MM-DDTHH:mm:ss.sssZ\<close> for the years 0 to 9999 (ECMAScript writes the other years
  with a sign and six digits). At 2024-04-05T18:30:00Z the string is
  \<^verbatim>\<open>2024-04-05T18:30:00.000Z\<close> (the witness).
\<close>

theorem iso_layout:
  "let now = clock rt; s = getFormattedTimestamp rt ''iso'' in
     s = toISOString now \<and>
     s = isoYear (YearFromTime now) @ ''-'' @ twoDigits (MonthFromTime now + 1) @ ''-'' @
         twoDigits (DateFromTime now) @ ''T'' @ twoDigits (HourFromTime now) @ '':'' @
         twoDigits (MinFromTime now) @ '':'' @ twoDigits (SecFromTime now) @ ''.'' @
         threeDigits (msFromTime now) @ ''Z'' \<and>
     last s = CHR ''Z'' \<and>
     getFormattedTimestamp (rt\<lparr>localTZA := z\<rparr>) ''iso'' = s \<and>
     (0 \<le> YearFromTime now \<and> YearFromTime now \<le> 9999 \<longrightarrow>
        matchesLayout ''####-##-##T##:##:##.###Z'' s)"
proof -
  have g: "getFormattedTimestamp rt ''iso'' = toISOString (clock rt)"
    "getFormattedTimestamp (rt\<lparr>localTZA := z\<rparr>) ''iso'' = toISOString (clock rt)"
    by (simp_all add: getFormattedTimestamp_def)
  have r: "0 \<le> MonthFromTime (clock rt) + 1" "MonthFromTime (clock rt) + 1 \<le> 99"
    "0 \<le> DateFromTime (clock rt)" "DateFromTime (clock rt) \<le> 99"
    "0 \<le> HourFromTime (clock rt)" "HourFromTime (clock rt) \<le> 99"
    "0 \<le> MinFromTime (clock rt)" "MinFromTime (clock rt) \<le> 99"
    "0 \<le> SecFromTime (clock rt)" "SecFromTime (clock rt) \<le> 99"
    "0 \<le> msFromTime (clock rt)" "msFromTime (clock rt) \<le> 999"
    using MonthFromTime_range [of "clock rt"] DateFromTime_range [of "clock rt"]
      clock_ranges [of "clock rt"] by simp_all
  have "matchesLayout ''####-##-##T##:##:##.###Z'' (toISOString (clock rt))"
    if y: "0 \<le> YearFromTime (clock rt)" "YearFromTime (clock rt) \<le> 9999"
  proof -
    from y have "isoYear (YearFromTime (clock rt)) = fourDigits (YearFromTime (clock rt))"
      by (simp add: isoYear_def pad_fourDigits)
    then show ?thesis
      unfolding iso_fields using iso_matches [OF y r] by simp
  qed
  then show ?thesis
    unfolding Let_def g using iso_fields [of "clock rt"] by simp
qed

theorem iso_layout_witness:
  "0 \<le> YearFromTime (clock sampleEnv) \<and> YearFromTime (clock sampleEnv) \<le> 9999 \<and>
   getFormattedTimestamp sampleEnv ''iso'' = ''2024-04-05T18:30:00.000Z'' \<and>
   matchesLayout ''####-##-##T##:##:##.###Z'' (getFormattedTimestamp sampleEnv ''iso'')"
proof -
  have y: "0 \<le> YearFromTime (clock sampleEnv)" "YearFromTime (clock sampleEnv) \<le> 9999"
    by (simp_all add: sample_utc_fields)
  from iso_layout [of sampleEnv "localTZA sampleEnv"] y
  have "getFormattedTimestamp sampleEnv ''iso'' =
          isoYear (YearFromTime (clock sampleEnv)) @ ''-'' @
          twoDigits (MonthFromTime (clock sampleEnv) + 1) @ ''-'' @
          twoDigits (DateFromTime (clock sampleEnv)) @ ''T'' @
          twoDigits (HourFromTime (clock sampleEnv)) @ '':'' @
          twoDigits (MinFromTime (clock sampleEnv)) @ '':'' @
          twoDigits (SecFromTime (clock sampleEnv)) @ ''.'' @
          threeDigits (msFromTime (clock sampleEnv)) @ ''Z''"
    and m: "matchesLayout ''####-##-##T##:##:##.###Z'' (getFormattedTimestamp sampleEnv ''iso'')"
    unfolding Let_def by blast+
  then have "getFormattedTimestamp sampleEnv ''iso'' = ''2024-04-05T18:30:00.000Z''"
    by (simp add: sample_utc_fields isoYear_def pad_fourDigits fourDigits_def twoDigits_def
        threeDigits_def digitChar_def)
  with y m show ?thesis by simp
qed

subsection \<open>C9: the clipboard is written before the keystroke is sent\<close>

text \<open>
  C9: \<^verbatim>\<open>copyPasteText\<close> only adds events to the list of the commands run. On macOS and
  on Linux the first command issued is the one that writes the clipboard, the keystroke
  command is never issued before that command has exited, and a call that succeeds has run
  exactly the two commands, in that order. On Windows one command is issued, and the order
  is that of the statements of its script: for every text the script has exactly three
  statements, the first one writes the clipboard (\<^verbatim>\<open>Set-Clipboard\<close> with the escaped text
  as its literal), the second one loads the assembly, and the third one sends the keystroke
  (\<^verbatim>\<open>SendWait('^v')\<close>); no text can add a statement or move the keystroke forward.
\<close>

theorem clipboard_before_keystroke:
  "let pasted = copyPasteText rt t h; new = newExecs h (snd pasted) in
     take (length (execs h)) (execs (snd pasted)) = execs h \<and>
     (platform rt = ''win32'' \<longrightarrow>
        hd new = Issued (windowsCommand t) \<and> length new = 2 \<and>
        map_option (psStatements False []) (powershellScript (windowsCommand t)) =
          Some [''Set-Clipboard -Value '' @ [squote] @ escapedText t @ [squote],
                '' Add-Type -AssemblyName System.Windows.Forms'',
                '' [System.Windows.Forms.SendKeys]::SendWait('' @ [squote] @ ''^v'' @ [squote] @ '')''] \<and>
        scriptEffects (windowsCommand t) = Some [WritesClipboard, OtherStatement, SendsKeystroke]) \<and>
     (platform rt = ''darwin'' \<longrightarrow>
        hd new = Issued (pbcopyCommand t) \<and>
        keystrokeAfterClipboard (pbcopyCommand t) osascriptCommand False new \<and>
        (fst pasted = Inr () \<longrightarrow>
           new = [Issued (pbcopyCommand t), Exited (pbcopyCommand t),
                  Issued osascriptCommand, Exited osascriptCommand])) \<and>
     (platform rt \<noteq> ''win32'' \<and> platform rt \<noteq> ''darwin'' \<longrightarrow>
        hd new = Issued (xclipCommand t) \<and>
        keystrokeAfterClipboard (xclipCommand t) xdotoolCommand False new \<and>
        (fst pasted = Inr () \<longrightarrow>
           new = [Issued (xclipCommand t), Exited (xclipCommand t),
                  Issued xdotoolCommand, Exited xdotoolCommand]))"
proof -
  consider (win) "platform rt = ''win32''" | (mac) "platform rt = ''darwin''"
    | (lin) "platform rt \<noteq> ''win32''" "platform rt \<noteq> ''darwin''"
    by blast
  then show ?thesis
  proof cases
    case win
    show ?thesis
    proof (cases "exec rt (execs h) (windowsCommand t)")
      case None
      from copyPasteText_win32_exits [OF win None] show ?thesis
        by (simp add: newExecs_def win windows_statements windows_effects)
    next
      case (Some e)
      from copyPasteText_win32_fails [OF win Some] show ?thesis
        by (simp add: newExecs_def win windows_statements windows_effects)
    qed
  next
    case mac
    show ?thesis
    proof (cases "exec rt (execs h) (pbcopyCommand t)")
      case (Some e)
      from copyPasteText_darwin_clipboard_fails [OF mac Some] show ?thesis
        by (simp add: newExecs_def mac pbcopy_not_osascript)
    next
      case None
      show ?thesis
      proof (cases "exec rt (execs h @ [Issued (pbcopyCommand t), Exited (pbcopyCommand t)]) osascriptCommand")
        case None': None
        from copyPasteText_darwin_exits [OF mac None None'] show ?thesis
          by (simp add: newExecs_def mac pbcopy_not_osascript)
      next
        case (Some e)
        from copyPasteText_darwin_keystroke_fails [OF mac None Some] show ?thesis
          by (simp add: newExecs_def mac pbcopy_not_osascript)
      qed
    qed
  next
    case lin
    show ?thesis
    proof (cases "exec rt (execs h) (xclipCommand t)")
      case (Some e)
      from copyPasteText_linux_clipboard_fails [OF lin Some] show ?thesis
        by (simp add: newExecs_def lin xclip_not_xdotool)
    next
      case None
      show ?thesis
      proof (cases "exec rt (execs h @ [Issued (xclipCommand t), Exited (xclipCommand t)]) xdotoolCommand")
        case None': None
        from copyPasteText_linux_exits [OF lin None None'] show ?thesis
          by (simp add: newExecs_def lin xclip_not_xdotool)
      next
        case (Some e)
        from copyPasteText_linux_keystroke_fails [OF lin None Some] show ?thesis
          by (simp add: newExecs_def lin xclip_not_xdotool)
      qed
    qed
  qed
qed


theorem clipboard_before_keystroke_witness:
  "platform sampleEnv = ''linux'' \<and> platform macEnv = ''darwin'' \<and> platform windowsEnv = ''win32'' \<and>
   newExecs emptyHost (snd (copyPasteText sampleEnv ''4/5/2024'' emptyHost)) =
     [Issued (xclipCommand ''4/5/2024''), Exited (xclipCommand ''4/5/2024''),
      Issued xdotoolCommand, Exited xdotoolCommand] \<and>
   keystrokeAfterClipboard (xclipCommand ''4/5/2024'') xdotoolCommand False
     (newExecs emptyHost (snd (copyPasteText sampleEnv ''4/5/2024'' emptyHost))) \<and>
   newExecs emptyHost (snd (copyPasteText macEnv ''4/5/2024'' emptyHost)) =
     [Issued (pbcopyCommand ''4/5/2024''), Exited (pbcopyCommand ''4/5/2024''),
      Issued osascriptCommand, Exited osascriptCommand] \<and>
   keystrokeAfterClipboard (pbcopyCommand ''4/5/2024'') osascriptCommand False
     (newExecs emptyHost (snd (copyPasteText macEnv ''4/5/2024'' emptyHost))) \<and>
   newExecs emptyHost (snd (copyPasteText windowsEnv ''4/5/2024'' emptyHost)) =
     [Issued (windowsCommand ''4/5/2024''), Exited (windowsCommand ''4/5/2024'')] \<and>
   scriptEffects (windowsCommand ''4/5/2024'') = Some [WritesClipboard, OtherStatement, SendsKeystroke]"
proof -
  have p: "platform sampleEnv = ''linux''" "platform macEnv = ''darwin''" "platform windowsEnv = ''win32''"
    by (simp_all add: sampleEnv_def macEnv_def windowsEnv_def)
  have l: "copyPasteText sampleEnv ''4/5/2024'' emptyHost =
     (Inr (), emptyHost\<lparr>execs := execs emptyHost @
        [Issued (xclipCommand ''4/5/2024''), Exited (xclipCommand ''4/5/2024''),
         Issued xdotoolCommand, Exited xdotoolCommand]\<rparr>)"
    by (rule copyPasteText_linux_exits) (simp_all add: sampleEnv_def)
  have m: "copyPasteText macEnv ''4/5/2024'' emptyHost =
     (Inr (), emptyHost\<lparr>execs := execs emptyHost @
        [Issued (pbcopyCommand ''4/5/2024''), Exited (pbcopyCommand ''4/5/2024''),
         Issued osascriptCommand, Exited osascriptCommand]\<rparr>)"
    by (rule copyPasteText_darwin_exits) (simp_all add: sampleEnv_def macEnv_def)
  have w: "copyPasteText windowsEnv ''4/5/2024'' emptyHost =
     (Inr (), emptyHost\<lparr>logger := logger emptyHost @ windowsLogged ''4/5/2024'',
        execs := execs emptyHost @
          [Issued (windowsCommand ''4/5/2024''), Exited (windowsCommand ''4/5/2024'')]\<rparr>)"
    by (rule copyPasteText_win32_exits) (simp_all add: sampleEnv_def windowsEnv_def)
  from clipboard_before_keystroke [of sampleEnv "''4/5/2024''" emptyHost]
    clipboard_before_keystroke [of macEnv "''4/5/2024''" emptyHost]
    clipboard_before_keystroke [of windowsEnv "''4/5/2024''" emptyHost]
  show ?thesis
    unfolding Let_def l m w using p by (simp add: newExecs_def emptyHost_def)
qed

subsection \<open>C10: an empty format\<close>

text \<open>
  C10: a key press whose settings hold the empty string as format runs exactly as one whose
  settings hold no format, and as one with no settings at all: the selector is
  \<^verbatim>\<open>"default"\<close>, and the text is the short locale date.
\<close>

theorem empty_format_is_absent:
  "onKeyDown rt \<lparr>settings = Some \<lparr>format = Some []\<rparr>\<rparr> h =
     onKeyDown rt \<lparr>settings = Some \<lparr>format = None\<rparr>\<rparr> h \<and>
   onKeyDown rt \<lparr>settings = Some \<lparr>format = Some []\<rparr>\<rparr> h = onKeyDown rt \<lparr>settings = None\<rparr> h \<and>
   selectedFormat \<lparr>settings = Some \<lparr>format = Some []\<rparr>\<rparr> = ''default'' \<and>
   getFormattedTimestamp rt (selectedFormat \<lparr>settings = Some \<lparr>format = Some []\<rparr>\<rparr>) =
     toLocaleDateString rt (clock rt) \<and>
   getFormattedTimestamp rt (selectedFormat \<lparr>settings = Some \<lparr>format = Some []\<rparr>\<rparr>) =
     getFormattedTimestamp rt ''short''"
  by (simp add: onKeyDown_def selectedFormat_def getFormattedTimestamp_def)

end
